theory Spec2Isabelle
  imports Complex_Main
begin

section \<open>Python values as the client sees them\<close>

text \<open>
  The client (\<^verbatim>\<open>QwenChat/src/client.py\<close>) works on whatever \<^verbatim>\<open>json.loads\<close> returns:
  \<^verbatim>\<open>None\<close>, booleans, numbers, strings, lists and dicts. A dict is written as an
  association list and read through \<open>map_of\<close>; its keys are meant to be distinct, as
  those of a Python dict are. A string is a list of code points below 256. A float is
  the rational it denotes (infinities and NaN are left out).
\<close>

datatype json =
    JNull
  | JBool bool
  | JInt int
  | JFloat rat
  | JStr string
  | JArr "json list"
  | JObj "(string \<times> json) list"

text \<open>
  The exceptions the client can meet. \<^verbatim>\<open>MarkupError\<close> is the one \<^verbatim>\<open>rich\<close> raises on
  console markup it cannot render. An exception of the transport (\<^verbatim>\<open>httpx\<close>) carries
  its message, which comes from outside; the messages of the others are fixed texts
  of the interpreter and of \<^verbatim>\<open>json\<close>.
\<close>

datatype py_error =
    TypeError
  | AttributeError
  | KeyError
  | JSONDecodeError
  | ValueError
  | RecursionError
  | MarkupError
  | FileNotFoundError
  | OSError
  | TransportError string

text \<open>Python's \<^verbatim>\<open>bool(x)\<close>.\<close>

fun truthy :: "json \<Rightarrow> bool" where
  "truthy JNull = False"
| "truthy (JBool b) = b"
| "truthy (JInt i) = (i \<noteq> 0)"
| "truthy (JFloat q) = (q \<noteq> 0)"
| "truthy (JStr s) = (s \<noteq> [])"
| "truthy (JArr xs) = (xs \<noteq> [])"
| "truthy (JObj m) = (m \<noteq> [])"

text \<open>
  Python's \<^verbatim>\<open>==\<close> on such values: \<^verbatim>\<open>True == 1 == 1.0\<close>, lists are compared
  element by element, dicts key by key, and values of different kinds differ.
\<close>

fun num_of :: "json \<Rightarrow> rat option" where
  "num_of (JBool b) = Some (if b then 1 else 0)"
| "num_of (JInt i) = Some (of_int i)"
| "num_of (JFloat q) = Some q"
| "num_of _ = None"

fun py_eq :: "json \<Rightarrow> json \<Rightarrow> bool"
  and py_eq_list :: "json list \<Rightarrow> json list \<Rightarrow> bool"
  and py_eq_items :: "(string \<times> json) list \<Rightarrow> (string \<times> json) list \<Rightarrow> bool"
  and py_eq_item :: "string \<Rightarrow> json \<Rightarrow> (string \<times> json) list \<Rightarrow> bool"
where
  "py_eq JNull b = (b = JNull)"
| "py_eq (JBool x) b = (num_of b = Some (if x then 1 else 0))"
| "py_eq (JInt i) b = (num_of b = Some (of_int i))"
| "py_eq (JFloat q) b = (num_of b = Some q)"
| "py_eq (JStr s) b = (b = JStr s)"
| "py_eq (JArr xs) b = (case b of JArr ys \<Rightarrow> py_eq_list xs ys | _ \<Rightarrow> False)"
| "py_eq (JObj m) b =
     (case b of JObj n \<Rightarrow> length m = length n \<and> py_eq_items m n | _ \<Rightarrow> False)"
| "py_eq_list [] ys = (ys = [])"
| "py_eq_list (x # xs) ys =
     (case ys of [] \<Rightarrow> False | y # ys' \<Rightarrow> py_eq x y \<and> py_eq_list xs ys')"
| "py_eq_items [] n = True"
| "py_eq_items (kv # m) n = (py_eq_item (fst kv) (snd kv) n \<and> py_eq_items m n)"
| "py_eq_item k v [] = False"
| "py_eq_item k v (kv # n) = (if k = fst kv then py_eq v (snd kv) else py_eq_item k v n)"

text \<open>\<^verbatim>\<open>sub in s\<close> on two strings: \<open>sub\<close> occurs in \<open>s\<close> as a contiguous block.\<close>

fun contains :: "string \<Rightarrow> string \<Rightarrow> bool" where
  "contains [] sub = (sub = [])"
| "contains (c # s) sub = (take (length sub) (c # s) = sub \<or> contains s sub)"

text \<open>
  \<^verbatim>\<open>k in x\<close> for a string \<open>k\<close>: key membership in a dict, element membership in a
  list, substring test in a string, and a \<^verbatim>\<open>TypeError\<close> on anything else.
\<close>

fun py_in :: "string \<Rightarrow> json \<Rightarrow> py_error + bool" where
  "py_in k (JObj m) = Inr (map_of m k \<noteq> None)"
| "py_in k (JArr xs) = Inr (list_ex (py_eq (JStr k)) xs)"
| "py_in k (JStr s) = Inr (contains s k)"
| "py_in k _ = Inl TypeError"

text \<open>\<^verbatim>\<open>x[k]\<close> for a string \<open>k\<close>: only a dict can be indexed by a string.\<close>

fun py_getitem :: "json \<Rightarrow> string \<Rightarrow> py_error + json" where
  "py_getitem (JObj m) k = (case map_of m k of None \<Rightarrow> Inl KeyError | Some v \<Rightarrow> Inr v)"
| "py_getitem _ k = Inl TypeError"

text \<open>\<^verbatim>\<open>x.get(k, d)\<close>: only a dict has the method.\<close>

fun py_get :: "json \<Rightarrow> string \<Rightarrow> json \<Rightarrow> py_error + json" where
  "py_get (JObj m) k d = Inr (case map_of m k of None \<Rightarrow> d | Some v \<Rightarrow> v)"
| "py_get _ k d = Inl AttributeError"

text \<open>
  \<^verbatim>\<open>for x in v\<close>: the elements of a list, the keys of a dict, the characters of a
  string; anything else is not iterable.
\<close>

fun py_iter :: "json \<Rightarrow> py_error + json list" where
  "py_iter (JArr xs) = Inr xs"
| "py_iter (JObj m) = Inr (map (\<lambda>kv. JStr (fst kv)) m)"
| "py_iter (JStr s) = Inr (map (\<lambda>c. JStr [c]) s)"
| "py_iter _ = Inl TypeError"

text \<open>\<^verbatim>\<open>s += x\<close> for a string \<open>s\<close>: \<open>x\<close> must be a string too.\<close>

fun py_concat :: "string \<Rightarrow> json \<Rightarrow> py_error + string" where
  "py_concat s (JStr t) = Inr (s @ t)"
| "py_concat s _ = Inl TypeError"

text \<open>
  \<^verbatim>\<open>str.strip()\<close> and \<^verbatim>\<open>str.startswith\<close>. The white space of \<^verbatim>\<open>str.isspace\<close>
  below code point 256 is 9 to 13, 28 to 32, 133 and 160.
\<close>

definition isspace :: "char \<Rightarrow> bool" where
  "isspace c = ((of_char c :: nat) \<in> set [9, 10, 11, 12, 13, 28, 29, 30, 31, 32, 133, 160])"

definition strip :: "string \<Rightarrow> string" where
  "strip s = rev (dropWhile isspace (rev (dropWhile isspace s)))"

definition startswith :: "string \<Rightarrow> string \<Rightarrow> bool" where
  "startswith s p = (take (length p) s = p)"

section \<open>The client and what it shows\<close>

text \<open>The attributes of \<^verbatim>\<open>QwenClient\<close> that its methods read and write.\<close>

record client =
  cookies :: json
  token :: json
  conversation_id :: json
  parent_id :: json
  thinking_enabled :: bool
  thinking_budget :: int

text \<open>
  The calls into \<^verbatim>\<open>display.py\<close>, in the order they are made, whether they print or
  raise. A status line is kept by what it reports, not by its text.
\<close>

datatype status_line =
    No_cookies
  | Creating_session
  | Failed_session
  | Sending_message
  | Request_failed int
  | Error_body string
  | Error_during_chat py_error
  | Created_conversation json
  | Failed_to_create int
  | Response_body string
  | Error_creating py_error
  | Ready_for_new

datatype display =
    Print_status status_line
  | Print_response_start
  | Stream_thinking string
  | Stream_live string

text \<open>
  \<^verbatim>\<open>print_status\<close> puts its message into a line of console markup
  (\<^verbatim>\<open>display.py\<close>, line 12) and \<^verbatim>\<open>stream_thinking\<close> hands its text to a \<^verbatim>\<open>Panel\<close>
  (lines 27 to 36), which renders a string as console markup too. \<^verbatim>\<open>rich\<close> is not
  among the sources: \<open>markup_error v\<close> says that it raises \<^verbatim>\<open>MarkupError\<close> on the
  text of \<open>v\<close>, as an f-string formats it (a closing tag such as \<^verbatim>\<open>[/usr/bin]\<close> that
  closes nothing). It is a parameter, as \<^verbatim>\<open>json.loads\<close> is. The fixed part of every
  status line renders, and so do the numbers put into it. \<^verbatim>\<open>stream_live\<close> shows its
  text as Markdown, which is not console markup, and \<^verbatim>\<open>print_response_start\<close> prints
  fixed texts: neither raises. The terminal is taken to show every character.

  The message of a \<^verbatim>\<open>MarkupError\<close> quotes the tag that closes nothing, so printing it
  in a status line raises again; the message of a transport exception is whatever it
  is; the fixed messages of the other exceptions hold no tag.
\<close>

definition message_fails :: "(json \<Rightarrow> bool) \<Rightarrow> py_error \<Rightarrow> bool" where
  "message_fails markup_error e =
     (case e of
        MarkupError \<Rightarrow> True
      | TransportError m \<Rightarrow> markup_error (JStr m)
      | _ \<Rightarrow> False)"

section \<open>The stream decoder of \<^verbatim>\<open>chat\<close>\<close>

text \<open>
  The local variables of the loop of \<^verbatim>\<open>chat\<close> (lines 172 to 235), the client it
  mutates and the console it prints to.
\<close>

record chat_state =
  self :: client
  thinking_content :: string
  answer_content :: string
  current_phase :: json
  console :: "display list"

text \<open>
  One step of a loop either goes on, leaves the loop (\<^verbatim>\<open>break\<close>) or raises; what
  was printed and assigned before an exception stays.
\<close>

datatype 's step = Continue 's | Broke 's | Raised py_error 's

text \<open>
  Lines 205 to 222: the phase changed. When \<^verbatim>\<open>stream_thinking\<close> raises, the lines
  after it are not reached.
\<close>

definition phase_changed :: "(json \<Rightarrow> bool) \<Rightarrow> chat_state \<Rightarrow> json \<Rightarrow> chat_state step" where
  "phase_changed markup_error st phase =
     (if \<not> py_eq phase (current_phase st) then
        (let flush = (py_eq (current_phase st) (JStr ''think'') \<and> thinking_content st \<noteq> []);
             st1 = st\<lparr>console := console st
                     @ (if flush then [Stream_thinking (thinking_content st)] else [])\<rparr>
         in
         if flush \<and> markup_error (JStr (thinking_content st)) then Raised MarkupError st1
         else
           Continue (st1\<lparr>console := console st1
                          @ (if py_eq phase (JStr ''answer'')
                                \<and> py_eq (current_phase st) (JStr ''think'')
                             then [Print_response_start] else []),
                        current_phase := phase\<rparr>))
      else Continue st)"

text \<open>Lines 225 to 229: accumulate the content.\<close>

definition accumulate :: "chat_state \<Rightarrow> json \<Rightarrow> json \<Rightarrow> py_error + chat_state" where
  "accumulate st phase content =
     (if truthy content then
        (if py_eq phase (JStr ''think'') then
           (case py_concat (thinking_content st) content of
              Inl e \<Rightarrow> Inl e
            | Inr s \<Rightarrow> Inr (st\<lparr>thinking_content := s\<rparr>))
         else
           (case py_concat (answer_content st) content of
              Inl e \<Rightarrow> Inl e
            | Inr s \<Rightarrow> Inr (st\<lparr>answer_content := s\<rparr>)))
      else Inr st)"

text \<open>Lines 199 to 232: the body of \<^verbatim>\<open>for choice in data["choices"]\<close>.\<close>

definition chat_choice :: "(json \<Rightarrow> bool) \<Rightarrow> chat_state \<Rightarrow> json \<Rightarrow> chat_state step" where
  "chat_choice markup_error st choice =
     (case py_get choice ''delta'' (JObj []) of
        Inl e \<Rightarrow> Raised e st
      | Inr delta \<Rightarrow>
     (case py_get delta ''content'' (JStr []) of
        Inl e \<Rightarrow> Raised e st
      | Inr content \<Rightarrow>
     (case py_get delta ''phase'' (JStr ''answer'') of
        Inl e \<Rightarrow> Raised e st
      | Inr phase \<Rightarrow>
     (case py_get delta ''status'' (JStr []) of
        Inl e \<Rightarrow> Raised e st
      | Inr status \<Rightarrow>
     (case phase_changed markup_error st phase of
        Raised e st1 \<Rightarrow> Raised e st1
      | Broke st1 \<Rightarrow> Broke st1
      | Continue st1 \<Rightarrow>
     (case accumulate st1 phase content of
        Inl e \<Rightarrow> Raised e st1
      | Inr st' \<Rightarrow>
          if py_eq status (JStr ''finished'') \<and> py_eq phase (JStr ''answer'')
          then Broke st' else Continue st'))))))"

text \<open>The \<^verbatim>\<open>for\<close> loop over the choices, left at \<^verbatim>\<open>break\<close> or at an exception.\<close>

fun chat_choices :: "(json \<Rightarrow> bool) \<Rightarrow> chat_state \<Rightarrow> json list \<Rightarrow> chat_state step" where
  "chat_choices markup_error st [] = Continue st"
| "chat_choices markup_error st (c # cs) =
     (case chat_choice markup_error st c of
        Continue st' \<Rightarrow> chat_choices markup_error st' cs
      | Broke st' \<Rightarrow> Continue st'
      | Raised e st' \<Rightarrow> Raised e st')"

text \<open>Lines 188 to 232: what is done with a parsed payload.\<close>

definition chat_data :: "(json \<Rightarrow> bool) \<Rightarrow> chat_state \<Rightarrow> json \<Rightarrow> chat_state step" where
  "chat_data markup_error st data =
     (case py_in ''response.created'' data of
        Inl e \<Rightarrow> Raised e st
      | Inr True \<Rightarrow>
          (case py_getitem data ''response.created'' of
             Inl e \<Rightarrow> Raised e st
           | Inr created_info \<Rightarrow>
          (case py_in ''response_id'' created_info of
             Inl e \<Rightarrow> Raised e st
           | Inr True \<Rightarrow>
               (case py_getitem created_info ''response_id'' of
                  Inl e \<Rightarrow> Raised e st
                | Inr r \<Rightarrow> Continue (st\<lparr>self := (self st)\<lparr>parent_id := r\<rparr>\<rparr>))
           | Inr False \<Rightarrow> Continue st))
      | Inr False \<Rightarrow>
          (case py_in ''choices'' data of
             Inl e \<Rightarrow> Raised e st
           | Inr True \<Rightarrow>
               (case py_getitem data ''choices'' of
                  Inl e \<Rightarrow> Raised e st
                | Inr choices \<Rightarrow>
               (case py_iter choices of
                  Inl e \<Rightarrow> Raised e st
                | Inr cs \<Rightarrow> chat_choices markup_error st cs))
           | Inr False \<Rightarrow> Continue st))"

text \<open>
  Lines 177 to 235: one line of the response. \<open>loads\<close> is \<^verbatim>\<open>json.loads\<close>: the value
  it returns or the exception it raises, a \<^verbatim>\<open>JSONDecodeError\<close> on text that is not
  JSON, and now and then another one (a \<^verbatim>\<open>RecursionError\<close> on deep nesting). Line 234
  catches the \<^verbatim>\<open>JSONDecodeError\<close> alone, whether \<^verbatim>\<open>json.loads\<close> raised it or the
  lines after it did; every other exception leaves the loop.
\<close>

definition chat_line ::
  "(string \<Rightarrow> py_error + json) \<Rightarrow> (json \<Rightarrow> bool) \<Rightarrow> chat_state \<Rightarrow> string \<Rightarrow> chat_state step"
where
  "chat_line loads markup_error st line =
     (if line = [] then Continue st
      else if startswith line ''data:'' then
        (let json_str = strip (drop 5 line) in
         if json_str = [] \<or> json_str = ''[DONE]'' then Continue st
         else (case loads json_str of
                 Inl e \<Rightarrow> if e = JSONDecodeError then Continue st else Raised e st
               | Inr data \<Rightarrow>
                   (case chat_data markup_error st data of
                      Raised e st' \<Rightarrow>
                        if e = JSONDecodeError then Continue st' else Raised e st'
                    | s \<Rightarrow> s)))
      else Continue st)"

text \<open>The \<^verbatim>\<open>for line in resp.iter_lines()\<close> loop; it has no \<^verbatim>\<open>break\<close>.\<close>

fun chat_lines ::
  "(string \<Rightarrow> py_error + json) \<Rightarrow> (json \<Rightarrow> bool) \<Rightarrow> chat_state \<Rightarrow> string list
     \<Rightarrow> chat_state step"
where
  "chat_lines loads markup_error st [] = Continue st"
| "chat_lines loads markup_error st (l # ls) =
     (case chat_line loads markup_error st l of
        Continue st' \<Rightarrow> chat_lines loads markup_error st' ls
      | Broke st' \<Rightarrow> chat_lines loads markup_error st' ls
      | Raised e st' \<Rightarrow> Raised e st')"

section \<open>The stream decoder of \<^verbatim>\<open>send_message\<close>\<close>

text \<open>
  The loop of \<^verbatim>\<open>send_message\<close> (lines 332 to 362) has one local variable,
  \<^verbatim>\<open>answer_content\<close>, beside the client; it prints nothing and has no \<^verbatim>\<open>break\<close>.
  Its state is the pair of the client and \<^verbatim>\<open>answer_content\<close>.
\<close>

type_synonym send_state = "client \<times> string"

text \<open>Lines 354 to 359: the body of \<^verbatim>\<open>for choice in data["choices"]\<close>.\<close>

definition send_choice :: "send_state \<Rightarrow> json \<Rightarrow> send_state step" where
  "send_choice st choice =
     (case py_get choice ''delta'' (JObj []) of
        Inl e \<Rightarrow> Raised e st
      | Inr delta \<Rightarrow>
     (case py_get delta ''content'' (JStr []) of
        Inl e \<Rightarrow> Raised e st
      | Inr content \<Rightarrow>
     (case py_get delta ''phase'' (JStr ''answer'') of
        Inl e \<Rightarrow> Raised e st
      | Inr phase \<Rightarrow>
          if truthy content \<and> py_eq phase (JStr ''answer'') then
            (case py_concat (snd st) content of
               Inl e \<Rightarrow> Raised e st
             | Inr s \<Rightarrow> Continue (fst st, s))
          else Continue st)))"

fun send_choices :: "send_state \<Rightarrow> json list \<Rightarrow> send_state step" where
  "send_choices st [] = Continue st"
| "send_choices st (c # cs) =
     (case send_choice st c of
        Continue st' \<Rightarrow> send_choices st' cs
      | Broke st' \<Rightarrow> Continue st'
      | Raised e st' \<Rightarrow> Raised e st')"

text \<open>Lines 346 to 359: what is done with a parsed payload.\<close>

definition send_data :: "send_state \<Rightarrow> json \<Rightarrow> send_state step" where
  "send_data st data =
     (case py_in ''response.created'' data of
        Inl e \<Rightarrow> Raised e st
      | Inr True \<Rightarrow>
          (case py_getitem data ''response.created'' of
             Inl e \<Rightarrow> Raised e st
           | Inr created_info \<Rightarrow>
          (case py_in ''response_id'' created_info of
             Inl e \<Rightarrow> Raised e st
           | Inr True \<Rightarrow>
               (case py_getitem created_info ''response_id'' of
                  Inl e \<Rightarrow> Raised e st
                | Inr r \<Rightarrow> Continue ((fst st)\<lparr>parent_id := r\<rparr>, snd st))
           | Inr False \<Rightarrow> Continue st))
      | Inr False \<Rightarrow>
          (case py_in ''choices'' data of
             Inl e \<Rightarrow> Raised e st
           | Inr True \<Rightarrow>
               (case py_getitem data ''choices'' of
                  Inl e \<Rightarrow> Raised e st
                | Inr choices \<Rightarrow>
               (case py_iter choices of
                  Inl e \<Rightarrow> Raised e st
                | Inr cs \<Rightarrow> send_choices st cs))
           | Inr False \<Rightarrow> Continue st))"

text \<open>
  Lines 335 to 362: one line of the response. Line 361 catches the
  \<^verbatim>\<open>JSONDecodeError\<close> alone.
\<close>

definition send_line ::
  "(string \<Rightarrow> py_error + json) \<Rightarrow> send_state \<Rightarrow> string \<Rightarrow> send_state step"
where
  "send_line loads st line =
     (if line = [] then Continue st
      else if startswith line ''data:'' then
        (let json_str = strip (drop 5 line) in
         if json_str = [] \<or> json_str = ''[DONE]'' then Continue st
         else (case loads json_str of
                 Inl e \<Rightarrow> if e = JSONDecodeError then Continue st else Raised e st
               | Inr data \<Rightarrow>
                   (case send_data st data of
                      Raised e st' \<Rightarrow>
                        if e = JSONDecodeError then Continue st' else Raised e st'
                    | s \<Rightarrow> s)))
      else Continue st)"

fun send_lines ::
  "(string \<Rightarrow> py_error + json) \<Rightarrow> send_state \<Rightarrow> string list \<Rightarrow> send_state step"
where
  "send_lines loads st [] = Continue st"
| "send_lines loads st (l # ls) =
     (case send_line loads st l of
        Continue st' \<Rightarrow> send_lines loads st' ls
      | Broke st' \<Rightarrow> send_lines loads st' ls
      | Raised e st' \<Rightarrow> Raised e st')"

section \<open>Configuration, requests and responses\<close>

text \<open>
  \<^verbatim>\<open>config.py\<close> is not among the sources; the constants of \<^verbatim>\<open>Config\<close> that the
  client reads are parameters.
\<close>

record config =
  base_url :: string
  user_agent :: string
  cookies_file :: string
  token_file :: string

text \<open>What the client hands to \<^verbatim>\<open>httpx\<close>: the URL, the headers, the cookies and the body.\<close>

datatype endpoint =
    Chats_new string
  | Chat_completions string json

record request =
  url :: endpoint
  headers :: "(string \<times> string) list"
  sent_cookies :: json
  payload :: json

text \<open>What \<^verbatim>\<open>httpx\<close> hands back, or the exception it raises.\<close>

record http_response =
  status_code :: int
  body :: string

record stream_response =
  stream_status :: int
  stream_lines :: "string list"
  stream_breaks :: "py_error option"
  error_text :: "string option"

text \<open>
  The outcome of a method: what it returns (for a method that can raise, the value
  it returns or the exception that leaves it), the client afterwards, the requests it
  issued and the calls it made into \<^verbatim>\<open>display.py\<close>.
\<close>

record 'a ran =
  returned :: 'a
  after :: client
  sent :: "request list"
  shown :: "display list"

text \<open>Lines 37 to 47; \<open>rid\<close> is the fresh \<^verbatim>\<open>uuid4\<close>.\<close>

definition get_headers :: "config \<Rightarrow> client \<Rightarrow> string \<Rightarrow> (string \<times> string) list" where
  "get_headers cfg c rid =
     [(''Accept'', ''application/json''),
      (''Content-Type'', ''application/json''),
      (''Origin'', base_url cfg),
      (''Referer'', base_url cfg @ ''/''),
      (''User-Agent'', user_agent cfg),
      (''X-Request-Id'', rid),
      (''X-Accel-Buffering'', ''no''),
      (''source'', ''web'')]"

section \<open>Creating and resetting the conversation\<close>

text \<open>What one call of \<^verbatim>\<open>_create_conversation\<close> gets from outside.\<close>

record create_env =
  request_id :: string
  now_ms :: int
  post_result :: "py_error + http_response"

text \<open>Lines 56 to 63.\<close>

definition create_payload :: "int \<Rightarrow> json" where
  "create_payload ms =
     JObj [(''title'', JStr ''New Chat''),
           (''models'', JArr [JStr ''qwen3-max-2025-10-30'']),
           (''chat_mode'', JStr ''normal''),
           (''chat_type'', JStr ''t2t''),
           (''timestamp'', JInt ms),
           (''project_id'', JStr [])]"

definition create_request :: "config \<Rightarrow> create_env \<Rightarrow> client \<Rightarrow> request" where
  "create_request cfg env c =
     \<lparr>url = Chats_new (base_url cfg),
      headers = get_headers cfg c (request_id env),
      sent_cookies = cookies c,
      payload = create_payload (now_ms env)\<rparr>"

text \<open>
  \<^verbatim>\<open>x[:8]\<close>: the first eight items of a string or of a list; nothing else can be
  sliced.
\<close>

fun py_slice8 :: "json \<Rightarrow> py_error + json" where
  "py_slice8 (JStr s) = Inr (JStr (take 8 s))"
| "py_slice8 (JArr xs) = Inr (JArr (take 8 xs))"
| "py_slice8 _ = Inl TypeError"

text \<open>
  Line 75, \<^verbatim>\<open>data.get("success") and data.get("data", {}).get("id")\<close>: whether the
  test passes. \<^verbatim>\<open>and\<close> does not evaluate its right side when the left is falsy.
\<close>

definition creation_succeeded :: "json \<Rightarrow> py_error + bool" where
  "creation_succeeded data =
     (case py_get data ''success'' JNull of
        Inl e \<Rightarrow> Inl e
      | Inr s \<Rightarrow>
          if \<not> truthy s then Inr False
          else
            (case py_get data ''data'' (JObj []) of
               Inl e \<Rightarrow> Inl e
             | Inr d \<Rightarrow>
            (case py_get d ''id'' JNull of
               Inl e \<Rightarrow> Inl e
             | Inr i \<Rightarrow> Inr (truthy i))))"

text \<open>
  Lines 73 to 84, inside the \<^verbatim>\<open>try\<close>: the client afterwards, the status lines, and
  the value returned or the exception raised. \<^verbatim>\<open>resp.json()\<close> is \<open>loads\<close> on the body.
  The status line of line 83 holds the first 200 characters of the body, that of
  line 77 the first eight items of the identifier: either can raise \<^verbatim>\<open>MarkupError\<close>.
\<close>

definition read_creation ::
  "(string \<Rightarrow> py_error + json) \<Rightarrow> (json \<Rightarrow> bool) \<Rightarrow> client \<Rightarrow> http_response
     \<Rightarrow> client \<times> display list \<times> (py_error + json)"
where
  "read_creation loads markup_error c resp =
     (let failed =
        (c, [Print_status (Failed_to_create (status_code resp)),
             Print_status (Response_body (take 200 (body resp)))],
         if markup_error (JStr (take 200 (body resp))) then Inl MarkupError else Inr JNull)
      in
      if status_code resp = 200 then
        (case loads (body resp) of
           Inl e \<Rightarrow> (c, [], Inl e)
         | Inr data \<Rightarrow>
        (case creation_succeeded data of
           Inl e \<Rightarrow> (c, [], Inl e)
         | Inr False \<Rightarrow> failed
         | Inr True \<Rightarrow>
        (case py_getitem data ''data'' of
           Inl e \<Rightarrow> (c, [], Inl e)
         | Inr d \<Rightarrow>
        (case py_getitem d ''id'' of
           Inl e \<Rightarrow> (c, [], Inl e)
         | Inr i \<Rightarrow>
        (case py_slice8 i of
           Inl e \<Rightarrow> (c\<lparr>conversation_id := i\<rparr>, [], Inl e)
         | Inr i8 \<Rightarrow>
             (c\<lparr>conversation_id := i\<rparr>, [Print_status (Created_conversation i8)],
              if markup_error i8 then Inl MarkupError else Inr i))))))
      else failed)"

text \<open>
  Lines 49 to 88. \<^verbatim>\<open>None\<close> is \<open>JNull\<close>. The handler of lines 86 to 88 prints the
  exception and returns \<^verbatim>\<open>None\<close>; when that print raises, the \<^verbatim>\<open>MarkupError\<close>
  leaves the method.
\<close>

definition create_conversation ::
  "config \<Rightarrow> (string \<Rightarrow> py_error + json) \<Rightarrow> (json \<Rightarrow> bool) \<Rightarrow> create_env \<Rightarrow> client
     \<Rightarrow> (py_error + json) ran"
where
  "create_conversation cfg loads markup_error env c =
     (if truthy (conversation_id c) then
        \<lparr>returned = Inr (conversation_id c), after = c, sent = [], shown = []\<rparr>
      else
        (case post_result env of
           Inl e \<Rightarrow>
             \<lparr>returned = (if message_fails markup_error e then Inl MarkupError else Inr JNull),
              after = c, sent = [create_request cfg env c],
              shown = [Print_status (Error_creating e)]\<rparr>
         | Inr resp \<Rightarrow>
             (case read_creation loads markup_error c resp of
                (c', out, Inl e) \<Rightarrow>
                  \<lparr>returned = (if message_fails markup_error e then Inl MarkupError
                               else Inr JNull),
                   after = c', sent = [create_request cfg env c],
                   shown = out @ [Print_status (Error_creating e)]\<rparr>
              | (c', out, Inr v) \<Rightarrow>
                  \<lparr>returned = Inr v, after = c', sent = [create_request cfg env c],
                   shown = out\<rparr>)))"


section \<open>A chat turn\<close>

text \<open>
  What one call of \<^verbatim>\<open>chat\<close> or \<^verbatim>\<open>send_message\<close> gets from outside: the
  environment of the creation call it may make, three fresh identifiers, the clock,
  and the streamed response or the exception of the transport.
\<close>

record turn_env =
  creation :: create_env
  turn_request_id :: string
  message_fid :: string
  child_id :: string
  current_timestamp :: int
  stream_result :: "py_error + stream_response"

text \<open>Lines 117 to 124 and 283 to 290.\<close>

definition feature_config :: "client \<Rightarrow> json" where
  "feature_config c =
     JObj ([(''thinking_enabled'', JBool (thinking_enabled c)),
            (''output_schema'', JStr ''phase''),
            (''research_mode'', JStr ''normal'')]
           @ (if thinking_enabled c then [(''thinking_budget'', JInt (thinking_budget c))] else []))"

text \<open>Lines 126 to 153 and 292 to 319; \<open>content\<close> is the prompt that is sent.\<close>

definition turn_payload :: "turn_env \<Rightarrow> client \<Rightarrow> string \<Rightarrow> json" where
  "turn_payload env c content =
     JObj [(''stream'', JBool True),
           (''version'', JStr ''2.1''),
           (''incremental_output'', JBool True),
           (''chat_id'', conversation_id c),
           (''chat_mode'', JStr ''normal''),
           (''model'', JStr ''qwen3-max-2025-10-30''),
           (''parent_id'', parent_id c),
           (''messages'', JArr [JObj [
              (''fid'', JStr (message_fid env)),
              (''parentId'', parent_id c),
              (''childrenIds'', JArr [JStr (child_id env)]),
              (''role'', JStr ''user''),
              (''content'', JStr content),
              (''user_action'', JStr ''chat''),
              (''files'', JArr []),
              (''timestamp'', JInt (current_timestamp env)),
              (''models'', JArr [JStr ''qwen3-max-2025-10-30'']),
              (''chat_type'', JStr ''t2t''),
              (''feature_config'', feature_config c),
              (''extra'', JObj [(''meta'', JObj [(''subChatType'', JStr ''t2t'')])]),
              (''sub_chat_type'', JStr ''t2t''),
              (''parent_id'', parent_id c)]]),
           (''timestamp'', JInt (current_timestamp env))]"

definition turn_request :: "config \<Rightarrow> turn_env \<Rightarrow> client \<Rightarrow> string \<Rightarrow> request" where
  "turn_request cfg env c content =
     \<lparr>url = Chat_completions (base_url cfg) (conversation_id c),
      headers = get_headers cfg c (turn_request_id env),
      sent_cookies = cookies c,
      payload = turn_payload env c content\<rparr>"

text \<open>
  Lines 243 to 245 of \<^verbatim>\<open>chat\<close>: the handler prints the exception and returns
  \<^verbatim>\<open>None\<close>; when that print raises, the \<^verbatim>\<open>MarkupError\<close> leaves \<^verbatim>\<open>chat\<close>.
\<close>

definition chat_failed ::
  "(json \<Rightarrow> bool) \<Rightarrow> py_error \<Rightarrow> client \<Rightarrow> display list
     \<Rightarrow> client \<times> display list \<times> (py_error + string option)"
where
  "chat_failed markup_error e c out =
     (c, out @ [Print_status (Error_during_chat e)],
      if message_fails markup_error e then Inl MarkupError else Inr None)"

text \<open>
  Lines 155 to 245 of \<^verbatim>\<open>chat\<close>: the request and the decoding of its response, for a
  client that has its conversation. \<open>out\<close> is what was printed so far. The status
  line of line 167 is printed inside a \<^verbatim>\<open>try\<close> that swallows every exception.
\<close>

definition chat_turn ::
  "config \<Rightarrow> (string \<Rightarrow> py_error + json) \<Rightarrow> (json \<Rightarrow> bool) \<Rightarrow> turn_env \<Rightarrow> client
     \<Rightarrow> display list \<Rightarrow> string \<Rightarrow> client \<times> display list \<times> (py_error + string option)"
where
  "chat_turn cfg loads markup_error env c out prompt =
     (case stream_result env of
        Inl e \<Rightarrow> chat_failed markup_error e c out
      | Inr resp \<Rightarrow>
          if stream_status resp \<noteq> 200 then
            (c, out @ [Print_status (Request_failed (stream_status resp))]
                  @ (case error_text resp of
                       None \<Rightarrow> []
                     | Some t \<Rightarrow> [Print_status (Error_body (take 300 t))]),
             Inr None)
          else
            (case chat_lines loads markup_error
                    \<lparr>self = c, thinking_content = [], answer_content = [],
                     current_phase = JNull, console = out\<rparr>
                    (stream_lines resp) of
               Raised e st \<Rightarrow> chat_failed markup_error e (self st) (console st)
             | Broke st \<Rightarrow> (self st, console st, Inr None)
             | Continue st \<Rightarrow>
                 (case stream_breaks resp of
                    Some e \<Rightarrow> chat_failed markup_error e (self st) (console st)
                  | None \<Rightarrow>
                      (self st,
                       console st
                         @ (if answer_content st \<noteq> [] then [Stream_live (answer_content st)]
                            else []),
                       Inr (Some (answer_content st))))))"

text \<open>
  Lines 97 to 245. \<^verbatim>\<open>None\<close> is \<open>None\<close>. \<^verbatim>\<open>_create_conversation\<close> is called outside
  the \<^verbatim>\<open>try\<close> (line 104): an exception that leaves it leaves \<^verbatim>\<open>chat\<close>.
\<close>

definition chat ::
  "config \<Rightarrow> (string \<Rightarrow> py_error + json) \<Rightarrow> (json \<Rightarrow> bool) \<Rightarrow> turn_env \<Rightarrow> client \<Rightarrow> string
     \<Rightarrow> (py_error + string option) ran"
where
  "chat cfg loads markup_error env c prompt =
     (if \<not> truthy (cookies c) then
        \<lparr>returned = Inr None, after = c, sent = [], shown = [Print_status No_cookies]\<rparr>
      else
        (let r = (if \<not> truthy (conversation_id c) then
                    (let r' = create_conversation cfg loads markup_error (creation env) c
                     in r'\<lparr>shown := [Print_status Creating_session] @ shown r'\<rparr>)
                  else \<lparr>returned = Inr (conversation_id c), after = c, sent = [], shown = []\<rparr>)
         in
         case returned r of
           Inl e \<Rightarrow> \<lparr>returned = Inl e, after = after r, sent = sent r, shown = shown r\<rparr>
         | Inr v \<Rightarrow>
             if \<not> truthy v then
               \<lparr>returned = Inr None, after = after r, sent = sent r,
                shown = shown r @ [Print_status Failed_session]\<rparr>
             else
               (case chat_turn cfg loads markup_error env (after r)
                       (shown r @ [Print_status Sending_message]) prompt of
                  (c', out, v') \<Rightarrow>
                    \<lparr>returned = v', after = c',
                     sent = sent r @ [turn_request cfg env (after r) prompt],
                     shown = out\<rparr>)))"

text \<open>
  What \<^verbatim>\<open>send_message\<close> returns is a string: the answer, or one of four error
  texts, kept here by what they report.
\<close>

datatype reply =
    Answer string
  | Error_no_cookies
  | Error_failed_session
  | Error_status int
  | Error_exception py_error

text \<open>Lines 279 to 281; \<^verbatim>\<open>system_prompt\<close> is a string or \<^verbatim>\<open>None\<close>.\<close>

definition full_prompt :: "string \<Rightarrow> string option \<Rightarrow> string" where
  "full_prompt prompt system_prompt =
     (case system_prompt of
        None \<Rightarrow> prompt
      | Some sp \<Rightarrow>
          if sp \<noteq> [] then
            ''[System Instructions: '' @ sp @ '']'' @ [CHR 0x0A, CHR 0x0A]
              @ ''User Request: '' @ prompt
          else prompt)"

text \<open>Lines 321 to 367 of \<^verbatim>\<open>send_message\<close>, for a client that has its conversation.\<close>

definition send_turn ::
  "(string \<Rightarrow> py_error + json) \<Rightarrow> turn_env \<Rightarrow> client \<Rightarrow> client \<times> reply"
where
  "send_turn loads env c =
     (case stream_result env of
        Inl e \<Rightarrow> (c, Error_exception e)
      | Inr resp \<Rightarrow>
          if stream_status resp \<noteq> 200 then (c, Error_status (stream_status resp))
          else
            (case send_lines loads (c, []) (stream_lines resp) of
               Raised e st \<Rightarrow> (fst st, Error_exception e)
             | Broke st \<Rightarrow> (fst st, Answer (snd st))
             | Continue st \<Rightarrow>
                 (case stream_breaks resp of
                    Some e \<Rightarrow> (fst st, Error_exception e)
                  | None \<Rightarrow> (fst st, Answer (snd st)))))"

text \<open>
  Lines 253 to 367. \<^verbatim>\<open>_create_conversation\<close> is called outside the \<^verbatim>\<open>try\<close>
  (line 269): an exception that leaves it leaves \<^verbatim>\<open>send_message\<close>.
\<close>

definition send_message ::
  "config \<Rightarrow> (string \<Rightarrow> py_error + json) \<Rightarrow> (json \<Rightarrow> bool) \<Rightarrow> turn_env \<Rightarrow> client \<Rightarrow> string
     \<Rightarrow> string option \<Rightarrow> (py_error + reply) ran"
where
  "send_message cfg loads markup_error env c prompt system_prompt =
     (if \<not> truthy (cookies c) then
        \<lparr>returned = Inr Error_no_cookies, after = c, sent = [], shown = []\<rparr>
      else
        (let r = (if \<not> truthy (conversation_id c) then
                    create_conversation cfg loads markup_error (creation env) c
                  else \<lparr>returned = Inr (conversation_id c), after = c, sent = [], shown = []\<rparr>)
         in
         case returned r of
           Inl e \<Rightarrow> \<lparr>returned = Inl e, after = after r, sent = sent r, shown = shown r\<rparr>
         | Inr v \<Rightarrow>
             if \<not> truthy v then
               \<lparr>returned = Inr Error_failed_session, after = after r, sent = sent r,
                shown = shown r\<rparr>
             else
               (case send_turn loads env (after r) of
                  (c', v') \<Rightarrow>
                    \<lparr>returned = Inr v', after = c',
                     sent = sent r
                       @ [turn_request cfg env (after r) (full_prompt prompt system_prompt)],
                     shown = shown r\<rparr>)))"

section \<open>Constructing the client\<close>

text \<open>
  What \<^verbatim>\<open>open(path, "r")\<close> and reading give: the file is missing
  (\<^verbatim>\<open>FileNotFoundError\<close>), it cannot be opened or read for another reason, or its text.
\<close>

datatype file_read = Missing | Unreadable | Contents string

text \<open>
  Lines 20 to 25: only \<^verbatim>\<open>FileNotFoundError\<close> is caught. \<^verbatim>\<open>json.load\<close> is \<open>loads\<close> on
  the text of the file.
\<close>

definition load_cookies ::
  "config \<Rightarrow> (string \<Rightarrow> py_error + json) \<Rightarrow> (string \<Rightarrow> file_read) \<Rightarrow> py_error + json"
where
  "load_cookies cfg loads fs =
     (case fs (cookies_file cfg) of
        Missing \<Rightarrow> Inr (JObj [])
      | Unreadable \<Rightarrow> Inl OSError
      | Contents s \<Rightarrow> loads s)"

text \<open>Lines 27 to 35.\<close>

definition get_token_from_cookies ::
  "config \<Rightarrow> (string \<Rightarrow> file_read) \<Rightarrow> json \<Rightarrow> py_error + json"
where
  "get_token_from_cookies cfg fs ck =
     (case py_in ''token'' ck of
        Inl e \<Rightarrow> Inl e
      | Inr True \<Rightarrow> py_getitem ck ''token''
      | Inr False \<Rightarrow>
          (case fs (token_file cfg) of
             Missing \<Rightarrow> Inr JNull
           | Unreadable \<Rightarrow> Inl OSError
           | Contents s \<Rightarrow> Inr (JStr (strip s))))"

text \<open>Lines 10 to 18: an exception of either helper leaves the constructor.\<close>

definition init ::
  "config \<Rightarrow> (string \<Rightarrow> py_error + json) \<Rightarrow> (string \<Rightarrow> file_read) \<Rightarrow> py_error + client"
where
  "init cfg loads fs =
     (case load_cookies cfg loads fs of
        Inl e \<Rightarrow> Inl e
      | Inr ck \<Rightarrow>
          (case get_token_from_cookies cfg fs ck of
             Inl e \<Rightarrow> Inl e
           | Inr t \<Rightarrow>
               Inr \<lparr>cookies = ck, token = t, conversation_id = JNull, parent_id = JNull,
                    thinking_enabled = False, thinking_budget = 81920\<rparr>))"

section \<open>The words of the specification\<close>

text \<open>
  The payload of a data line: the text after \<^verbatim>\<open>data:\<close>, stripped, when it is neither
  empty nor the sentinel \<^verbatim>\<open>[DONE]\<close>. Every other line has none.
\<close>

definition payload_of :: "string \<Rightarrow> string option" where
  "payload_of line =
     (if startswith line ''data:'' \<and> strip (drop 5 line) \<noteq> [] \<and> strip (drop 5 line) \<noteq> ''[DONE]''
      then Some (strip (drop 5 line)) else None)"

text \<open>The record of a line: what its payload parses to, when it has one that parses.\<close>

definition record_of :: "(string \<Rightarrow> py_error + json) \<Rightarrow> string \<Rightarrow> json option" where
  "record_of loads line =
     (case payload_of line of
        None \<Rightarrow> None
      | Some p \<Rightarrow> (case loads p of Inl e \<Rightarrow> None | Inr v \<Rightarrow> Some v))"

text \<open>
  A line is decodable when \<^verbatim>\<open>json.loads\<close> returns a value for its payload or raises
  \<^verbatim>\<open>JSONDecodeError\<close>, and no other exception.
\<close>

definition decodable :: "(string \<Rightarrow> py_error + json) \<Rightarrow> string \<Rightarrow> bool" where
  "decodable loads line =
     (case payload_of line of
        None \<Rightarrow> True
      | Some p \<Rightarrow> (case loads p of Inl e \<Rightarrow> e = JSONDecodeError | Inr v \<Rightarrow> True))"

text \<open>A field of a record, with its default; a value that is no record has no fields.\<close>

fun field :: "json \<Rightarrow> string \<Rightarrow> json \<Rightarrow> json" where
  "field (JObj m) k d = (case map_of m k of None \<Rightarrow> d | Some v \<Rightarrow> v)"
| "field _ k d = d"

fun is_obj :: "json \<Rightarrow> bool" where
  "is_obj (JObj m) = True"
| "is_obj _ = False"

fun is_str :: "json \<Rightarrow> bool" where
  "is_str (JStr s) = True"
| "is_str _ = False"

fun text_of :: "json \<Rightarrow> string" where
  "text_of (JStr s) = s"
| "text_of _ = []"

text \<open>
  The three fields of a content delta: its text (empty when absent), its phase
  (\<^verbatim>\<open>answer\<close> when absent) and its status.
\<close>

definition delta_content :: "json \<Rightarrow> string" where
  "delta_content d = text_of (field d ''content'' (JStr []))"

definition delta_phase :: "json \<Rightarrow> json" where
  "delta_phase d = field d ''phase'' (JStr ''answer'')"

definition delta_status :: "json \<Rightarrow> json" where
  "delta_status d = field d ''status'' (JStr [])"

text \<open>
  A record with a \<^verbatim>\<open>response.created\<close> key is the session-created signal and
  carries no deltas; any other record carries the deltas of its \<^verbatim>\<open>choices\<close>. The
  deltas of a stream are those of its records, in arrival order.
\<close>

definition is_created :: "json \<Rightarrow> bool" where
  "is_created data = (case data of JObj m \<Rightarrow> map_of m ''response.created'' \<noteq> None | _ \<Rightarrow> False)"

definition record_deltas :: "json \<Rightarrow> json list" where
  "record_deltas data =
     (if is_created data then []
      else (case field data ''choices'' (JArr []) of
              JArr cs \<Rightarrow> map (\<lambda>c. field c ''delta'' (JObj [])) cs
            | _ \<Rightarrow> []))"

definition stream_deltas :: "(string \<Rightarrow> py_error + json) \<Rightarrow> string list \<Rightarrow> json list" where
  "stream_deltas loads ls =
     concat (map (\<lambda>l. case record_of loads l of None \<Rightarrow> [] | Some r \<Rightarrow> record_deltas r) ls)"

text \<open>
  A well-formed stream: every line is decodable, and every record is an object that
  is the session-created signal with an object as its value, or has no \<^verbatim>\<open>choices\<close>,
  or has a list of choices, each an object whose delta is an object with a string as
  its content.
\<close>

definition wf_delta :: "json \<Rightarrow> bool" where
  "wf_delta d = (is_obj d \<and> is_str (field d ''content'' (JStr [])))"

definition wf_choice :: "json \<Rightarrow> bool" where
  "wf_choice c = (is_obj c \<and> wf_delta (field c ''delta'' (JObj [])))"

definition wf_record :: "json \<Rightarrow> bool" where
  "wf_record data =
     (case data of
        JObj m \<Rightarrow>
          (case map_of m ''response.created'' of
             Some ci \<Rightarrow> is_obj ci
           | None \<Rightarrow>
               (case map_of m ''choices'' of
                  None \<Rightarrow> True
                | Some (JArr cs) \<Rightarrow> list_all wf_choice cs
                | Some _ \<Rightarrow> False))
      | _ \<Rightarrow> False)"

definition wf_line :: "(string \<Rightarrow> py_error + json) \<Rightarrow> string \<Rightarrow> bool" where
  "wf_line loads l =
     (decodable loads l
      \<and> (case record_of loads l of None \<Rightarrow> True | Some r \<Rightarrow> wf_record r))"

definition wf_stream :: "(string \<Rightarrow> py_error + json) \<Rightarrow> string list \<Rightarrow> bool" where
  "wf_stream loads ls = list_all (wf_line loads) ls"

text \<open>The stream ends with the sentinel line.\<close>

definition ends_with_sentinel :: "string list \<Rightarrow> bool" where
  "ends_with_sentinel ls =
     (ls \<noteq> [] \<and> startswith (last ls) ''data:'' \<and> strip (drop 5 (last ls)) = ''[DONE]'')"

text \<open>
  The answer of the specification: the content of every delta whose phase is
  \<^verbatim>\<open>answer\<close>, in arrival order.
\<close>

definition answer_text :: "json list \<Rightarrow> string" where
  "answer_text ds = concat (map delta_content (filter (\<lambda>d. delta_phase d = JStr ''answer'') ds))"

text \<open>
  The session-created signal sets the parent pointer; \<open>stream_parent\<close> is the client
  after all the signals of a stream.
\<close>

definition advance_parent :: "json \<Rightarrow> client \<Rightarrow> client" where
  "advance_parent data c =
     (case data of
        JObj m \<Rightarrow>
          (case map_of m ''response.created'' of
             Some (JObj ci) \<Rightarrow>
               (case map_of ci ''response_id'' of
                  Some r \<Rightarrow> c\<lparr>parent_id := r\<rparr>
                | None \<Rightarrow> c)
           | _ \<Rightarrow> c)
      | _ \<Rightarrow> c)"

definition stream_parent :: "(string \<Rightarrow> py_error + json) \<Rightarrow> string list \<Rightarrow> client \<Rightarrow> client" where
  "stream_parent loads ls c =
     foldl (\<lambda>c l. case record_of loads l of None \<Rightarrow> c | Some r \<Rightarrow> advance_parent r c) c ls"

text \<open>
  A delta is finishing when its status is \<^verbatim>\<open>finished\<close> and its phase \<^verbatim>\<open>answer\<close>. Of
  the deltas of one record, \<open>consumed\<close> are those up to the first finishing one;
  \<open>chat_deltas\<close> are the consumed deltas of the records of a stream.
\<close>

definition finishing :: "json \<Rightarrow> bool" where
  "finishing d = (delta_status d = JStr ''finished'' \<and> delta_phase d = JStr ''answer'')"

fun consumed :: "json list \<Rightarrow> json list" where
  "consumed [] = []"
| "consumed (d # ds) = (if finishing d then [d] else d # consumed ds)"

definition chat_deltas :: "(string \<Rightarrow> py_error + json) \<Rightarrow> string list \<Rightarrow> json list" where
  "chat_deltas loads ls =
     concat (map (\<lambda>l. case record_of loads l of None \<Rightarrow> [] | Some r \<Rightarrow> consumed (record_deltas r)) ls)"

text \<open>
  A delta whose phase differs from the current one, met with a non-empty reasoning
  buffer while the current phase is \<^verbatim>\<open>think\<close>, flushes the buffer; the flush raises
  when the buffer does not render.
\<close>

definition flushing :: "chat_state \<Rightarrow> json \<Rightarrow> bool" where
  "flushing st phase =
     (\<not> py_eq phase (current_phase st) \<and> py_eq (current_phase st) (JStr ''think'')
      \<and> thinking_content st \<noteq> [])"

definition flush_raises :: "(json \<Rightarrow> bool) \<Rightarrow> chat_state \<Rightarrow> json \<Rightarrow> bool" where
  "flush_raises markup_error st phase =
     (flushing st phase \<and> markup_error (JStr (thinking_content st)))"

text \<open>The state after a change of phase whose flush, if any, renders.\<close>

definition enter_phase :: "chat_state \<Rightarrow> json \<Rightarrow> chat_state" where
  "enter_phase st phase =
     (if \<not> py_eq phase (current_phase st) then
        st\<lparr>console := console st
              @ (if flushing st phase then [Stream_thinking (thinking_content st)] else [])
              @ (if py_eq phase (JStr ''answer'') \<and> py_eq (current_phase st) (JStr ''think'')
                 then [Print_response_start] else []),
           current_phase := phase\<rparr>
      else st)"

text \<open>What a well-formed delta does to the state of \<^verbatim>\<open>chat\<close> when its flush renders.\<close>

definition absorb :: "chat_state \<Rightarrow> json \<Rightarrow> chat_state" where
  "absorb st d =
     (let st' = enter_phase st (delta_phase d) in
      if delta_phase d = JStr ''think''
      then st'\<lparr>thinking_content := thinking_content st' @ delta_content d\<rparr>
      else st'\<lparr>answer_content := answer_content st' @ delta_content d\<rparr>)"

text \<open>No flush raises while these deltas are absorbed one after the other.\<close>

fun smooth :: "(json \<Rightarrow> bool) \<Rightarrow> chat_state \<Rightarrow> json list \<Rightarrow> bool" where
  "smooth markup_error st [] = True"
| "smooth markup_error st (d # ds) =
     (\<not> flush_raises markup_error st (delta_phase d) \<and> smooth markup_error (absorb st d) ds)"

text \<open>The reasoning text of a list of deltas, and the text of its other deltas.\<close>

definition reasoning_text :: "json list \<Rightarrow> string" where
  "reasoning_text ds = concat (map delta_content (filter (\<lambda>d. delta_phase d = JStr ''think'') ds))"

definition other_text :: "json list \<Rightarrow> string" where
  "other_text ds = concat (map delta_content (filter (\<lambda>d. delta_phase d \<noteq> JStr ''think'') ds))"

text \<open>
  The turn reaches the loop over the lines of the response and the transport does not
  break: the client has cookies, it has a conversation or creates one, and the response
  has status 200.
\<close>

definition has_conversation :: "(py_error + json) ran \<Rightarrow> bool" where
  "has_conversation r = (case returned r of Inl e \<Rightarrow> False | Inr v \<Rightarrow> truthy v)"

definition turn_streams ::
  "config \<Rightarrow> (string \<Rightarrow> py_error + json) \<Rightarrow> (json \<Rightarrow> bool) \<Rightarrow> turn_env \<Rightarrow> client
     \<Rightarrow> stream_response \<Rightarrow> bool"
where
  "turn_streams cfg loads markup_error env c resp =
     (truthy (cookies c)
      \<and> has_conversation (create_conversation cfg loads markup_error (creation env) c)
      \<and> stream_result env = Inr resp
      \<and> stream_status resp = 200
      \<and> stream_breaks resp = None)"

text \<open>The state in which the loop of \<^verbatim>\<open>chat\<close> starts (lines 98 to 174).\<close>

definition turn_start ::
  "config \<Rightarrow> (string \<Rightarrow> py_error + json) \<Rightarrow> (json \<Rightarrow> bool) \<Rightarrow> turn_env \<Rightarrow> client
     \<Rightarrow> chat_state"
where
  "turn_start cfg loads markup_error env c =
     \<lparr>self = after (create_conversation cfg loads markup_error (creation env) c),
      thinking_content = [], answer_content = [], current_phase = JNull,
      console =
        (if truthy (conversation_id c) then []
         else Print_status Creating_session
                # shown (create_conversation cfg loads markup_error (creation env) c))
        @ [Print_status Sending_message]\<rparr>"

text \<open>What \<^verbatim>\<open>stream_thinking\<close> was called with, in order: the flushes of the reasoning buffer.\<close>

fun flushes :: "display list \<Rightarrow> string list" where
  "flushes [] = []"
| "flushes (Stream_thinking s # out) = s # flushes out"
| "flushes (x # out) = flushes out"

text \<open>The running concatenations of a list of texts, starting from \<open>acc\<close>.\<close>

fun cumulative :: "string \<Rightarrow> string list \<Rightarrow> string list" where
  "cumulative acc [] = []"
| "cumulative acc (r # rs) = (acc @ r) # cumulative (acc @ r) rs"

text \<open>
  A stream that interleaves reasoning and answer: its deltas are blocks, each a run of
  deltas of phase \<^verbatim>\<open>think\<close> with some content followed by a non-empty run of deltas
  of phase \<^verbatim>\<open>answer\<close>.
\<close>

definition reasoning_block :: "json list \<Rightarrow> bool" where
  "reasoning_block ds =
     (list_all (\<lambda>d. delta_phase d = JStr ''think'') ds \<and> concat (map delta_content ds) \<noteq> [])"

definition answer_block :: "json list \<Rightarrow> bool" where
  "answer_block ds = (ds \<noteq> [] \<and> list_all (\<lambda>d. delta_phase d = JStr ''answer'') ds)"

definition interleaved :: "(json list \<times> json list) list \<Rightarrow> json list" where
  "interleaved blocks = concat (map (\<lambda>b. fst b @ snd b) blocks)"

definition wf_blocks :: "(json list \<times> json list) list \<Rightarrow> bool" where
  "wf_blocks blocks = list_all (\<lambda>b. reasoning_block (fst b) \<and> answer_block (snd b)) blocks"

text \<open>
  Every reasoning text that is flushed renders: the running concatenations of the
  reasoning of the blocks.
\<close>

definition flushes_render :: "(json \<Rightarrow> bool) \<Rightarrow> (json list \<times> json list) list \<Rightarrow> bool" where
  "flushes_render markup_error blocks =
     list_all (\<lambda>t. \<not> markup_error (JStr t))
       (cumulative [] (map (\<lambda>b. concat (map delta_content (fst b))) blocks))"

text \<open>No record of the stream carries a delta after a finishing one.\<close>

definition no_delta_after_finish :: "(string \<Rightarrow> py_error + json) \<Rightarrow> string list \<Rightarrow> bool" where
  "no_delta_after_finish loads ls =
     list_all (\<lambda>l. case record_of loads l of
                     None \<Rightarrow> True
                   | Some r \<Rightarrow> consumed (record_deltas r) = record_deltas r) ls"




section \<open>Example inputs\<close>

text \<open>
  The payloads of the examples, with the values that \<^verbatim>\<open>json.loads\<close> returns for them.
  Every other text is an example of a payload that is not JSON, on which it raises
  \<^verbatim>\<open>JSONDecodeError\<close>.
\<close>

definition example_payloads :: "(string \<times> json) list" where
  \<open>example_payloads =
       [(''{"response.created":{"response_id":"r-1"}}'',
           JObj [(''response.created'', JObj [(''response_id'', JStr ''r-1'')])]),
        (''{"choices":[{"delta":{"content":"r1","phase":"think"}}]}'',
           JObj [(''choices'', JArr [JObj [(''delta'',
             JObj [(''content'', JStr ''r1''), (''phase'', JStr ''think'')])]])]),
        (''{"choices":[{"delta":{"content":"a1","phase":"answer"}}]}'',
           JObj [(''choices'', JArr [JObj [(''delta'',
             JObj [(''content'', JStr ''a1''), (''phase'', JStr ''answer'')])]])]),
        (''{"choices":[{"delta":{"content":"r2","phase":"think"}}]}'',
           JObj [(''choices'', JArr [JObj [(''delta'',
             JObj [(''content'', JStr ''r2''), (''phase'', JStr ''think'')])]])]),
        (''{"choices":[{"delta":{"content":"a2","phase":"answer"}}]}'',
           JObj [(''choices'', JArr [JObj [(''delta'',
             JObj [(''content'', JStr ''a2''), (''phase'', JStr ''answer'')])]])]),
        (''{"choices":[{"delta":{"content":"x","phase":"other"}}]}'',
           JObj [(''choices'', JArr [JObj [(''delta'',
             JObj [(''content'', JStr ''x''), (''phase'', JStr ''other'')])]])]),
        (''{"success":true,"data":{"id":"conv-0123456789"}}'',
           JObj [(''success'', JBool True),
                 (''data'', JObj [(''id'', JStr ''conv-0123456789'')])]),
        (''{"choices":[{"delta":{"content":"a","phase":"answer","status":"finished"}},{"delta":{"content":"b","phase":"answer"}}]}'',
           JObj [(''choices'', JArr
             [JObj [(''delta'', JObj [(''content'', JStr ''a''), (''phase'', JStr ''answer''),
                                      (''status'', JStr ''finished'')])],
              JObj [(''delta'', JObj [(''content'', JStr ''b''), (''phase'', JStr ''answer'')])]])]),
        (''{"choices":[{"delta":{"content":"see [/usr/bin]","phase":"think"}}]}'',
           JObj [(''choices'', JArr [JObj [(''delta'',
             JObj [(''content'', JStr ''see [/usr/bin]''), (''phase'', JStr ''think'')])]])]),
        (''5'', JInt 5),
        (''{"success": false}'', JObj [(''success'', JBool False)]),
        (''{"session":"abc"}'', JObj [(''session'', JStr ''abc'')])]\<close>

definition example_loads :: "string \<Rightarrow> py_error + json" where
  "example_loads s =
     (case map_of example_payloads s of None \<Rightarrow> Inl JSONDecodeError | Some v \<Rightarrow> Inr v)"

text \<open>
  The texts of the examples on which \<^verbatim>\<open>rich\<close> raises \<^verbatim>\<open>MarkupError\<close>: the two that
  hold a closing tag which closes nothing. The other texts of the examples hold no
  tag.
\<close>

definition example_markup_error :: "json \<Rightarrow> bool" where
  "example_markup_error v = (v = JStr ''[/x]'' \<or> v = JStr ''see [/usr/bin]'')"

definition example_config :: config where
  "example_config =
     \<lparr>base_url = ''https://chat.qwen.ai'', user_agent = ''Mozilla/5.0'',
      cookies_file = ''cookies.json'', token_file = ''token.txt''\<rparr>"

text \<open>A client that has cookies and a conversation, and one that has no conversation yet.\<close>

definition example_client :: client where
  "example_client =
     \<lparr>cookies = JObj [(''session'', JStr ''abc'')], token = JNull,
      conversation_id = JStr ''conv-1'', parent_id = JNull,
      thinking_enabled = False, thinking_budget = 81920\<rparr>"

definition fresh_client :: client where
  "fresh_client = example_client\<lparr>conversation_id := JNull\<rparr>"

text \<open>The state of the loop of \<^verbatim>\<open>chat\<close> after some reasoning and some answer text.\<close>

definition example_state :: chat_state where
  "example_state =
     \<lparr>self = example_client, thinking_content = ''r1'', answer_content = ''a1'',
      current_phase = JStr ''answer'', console = [Stream_thinking ''r1'', Print_response_start]\<rparr>"

text \<open>A creation call that is answered with status 200 and the given body.\<close>

definition example_create_env :: "string \<Rightarrow> create_env" where
  "example_create_env b =
     \<lparr>request_id = ''req-0'', now_ms = 1700000000000,
      post_result = Inr \<lparr>status_code = 200, body = b\<rparr>\<rparr>"

text \<open>A creation call that is answered with the given status and body.\<close>

definition example_refusal :: "int \<Rightarrow> string \<Rightarrow> create_env" where
  "example_refusal n b =
     \<lparr>request_id = ''req-0'', now_ms = 1700000000000,
      post_result = Inr \<lparr>status_code = n, body = b\<rparr>\<rparr>"

text \<open>
  Three states of the credential store: both files missing, a cookie file that is not
  JSON beside a token file, and a cookie file without a token beside no token file.
\<close>

definition no_files :: "string \<Rightarrow> file_read" where
  "no_files path = Missing"

definition corrupt_cookie_file :: "string \<Rightarrow> file_read" where
  "corrupt_cookie_file path =
     (if path = ''cookies.json'' then Contents ''{broken''
      else if path = ''token.txt'' then Contents ''tok''
      else Missing)"

definition cookie_file_only :: "string \<Rightarrow> file_read" where
  \<open>cookie_file_only path =
     (if path = ''cookies.json'' then Contents ''{"session":"abc"}'' else Missing)\<close>

text \<open>A response with status 200 and the given lines, which does not break.\<close>

definition example_response :: "string list \<Rightarrow> stream_response" where
  "example_response ls =
     \<lparr>stream_status = 200, stream_lines = ls, stream_breaks = None, error_text = None\<rparr>"

text \<open>A turn that gets this response.\<close>

definition example_env :: "string list \<Rightarrow> turn_env" where
  \<open>example_env ls =
     \<lparr>creation = example_create_env ''{"success":true,"data":{"id":"conv-0123456789"}}'',
      turn_request_id = ''req-1'', message_fid = ''fid-1'', child_id = ''child-1'',
      current_timestamp = 1700000000,
      stream_result = Inr (example_response ls)\<rparr>\<close>
section \<open>Properties of the decoders\<close>

lemma py_eq_JStr_right [simp]: "py_eq x (JStr s) = (x = JStr s)"
  by (cases x) auto

lemma record_of_loads:
  "record_of loads l = Some r \<Longrightarrow>
   l \<noteq> [] \<and> startswith l ''data:'' \<and> strip (drop 5 l) \<noteq> [] \<and> strip (drop 5 l) \<noteq> ''[DONE]''
   \<and> loads (strip (drop 5 l)) = Inr r"
  by (auto simp: record_of_def payload_of_def startswith_def split: if_splits sum.splits)

lemma send_line_record:
  assumes "record_of loads l = Some r"
  shows "send_line loads st l =
           (case send_data st r of
              Raised e st' \<Rightarrow> if e = JSONDecodeError then Continue st' else Raised e st'
            | s \<Rightarrow> s)"
  using record_of_loads [OF assms] by (simp add: send_line_def Let_def)

lemma chat_line_record:
  assumes "record_of loads l = Some r"
  shows "chat_line loads markup_error st l =
           (case chat_data markup_error st r of
              Raised e st' \<Rightarrow> if e = JSONDecodeError then Continue st' else Raised e st'
            | s \<Rightarrow> s)"
  using record_of_loads [OF assms] by (simp add: chat_line_def Let_def)

lemma send_line_no_record:
  "decodable loads l \<Longrightarrow> record_of loads l = None \<Longrightarrow> send_line loads st l = Continue st"
  by (auto simp: send_line_def decodable_def record_of_def payload_of_def Let_def
           split: if_splits sum.splits)

lemma chat_line_no_record:
  "decodable loads l \<Longrightarrow> record_of loads l = None \<Longrightarrow>
   chat_line loads markup_error st l = Continue st"
  by (auto simp: chat_line_def decodable_def record_of_def payload_of_def Let_def
           split: if_splits sum.splits)

lemma send_choice_wf:
  assumes "wf_choice c"
  shows "send_choice (cl, a) c =
           Continue (cl, a @ answer_text [field c ''delta'' (JObj [])])"
proof -
  obtain m where c: "c = JObj m" using assms by (cases c) (auto simp: wf_choice_def)
  obtain dm where d: "field c ''delta'' (JObj []) = JObj dm"
    using assms by (cases "field c ''delta'' (JObj [])") (auto simp: wf_choice_def wf_delta_def)
  obtain s where s: "field (JObj dm) ''content'' (JStr []) = JStr s"
    using assms d by (cases "field (JObj dm) ''content'' (JStr [])") (auto simp: wf_choice_def wf_delta_def)
  show ?thesis
    using c d s
    by (auto simp: send_choice_def answer_text_def delta_phase_def delta_content_def
             split: option.splits)
qed

lemma answer_text_append: "answer_text (xs @ ys) = answer_text xs @ answer_text ys"
  by (simp add: answer_text_def)

lemma send_choices_wf:
  "list_all wf_choice cs \<Longrightarrow>
   send_choices (cl, a) cs =
     Continue (cl, a @ answer_text (map (\<lambda>c. field c ''delta'' (JObj [])) cs))"
proof (induction cs arbitrary: a)
  case Nil
  then show ?case by (simp add: answer_text_def)
next
  case (Cons c cs)
  then show ?case
    by (simp add: send_choice_wf answer_text_def)
qed

lemma send_data_wf:
  assumes "wf_record data"
  shows "send_data (cl, a) data =
           Continue (advance_parent data cl, a @ answer_text (record_deltas data))"
proof -
  obtain m where m: "data = JObj m" using assms by (cases data) (auto simp: wf_record_def)
  show ?thesis
  proof (cases "map_of m ''response.created''")
    case None
    show ?thesis
    proof (cases "map_of m ''choices''")
      case n2: None
      then show ?thesis using None m
        by (simp add: send_data_def advance_parent_def record_deltas_def is_created_def answer_text_def)
    next
      case (Some ch)
      then obtain cs where cs: "ch = JArr cs" and wf: "list_all wf_choice cs"
        using assms None m by (cases ch) (auto simp: wf_record_def)
      show ?thesis using None m Some cs wf
        by (simp add: send_data_def advance_parent_def record_deltas_def is_created_def
              send_choices_wf)
    qed
  next
    case (Some ci)
    then obtain cm where cm: "ci = JObj cm"
      using assms m by (cases ci) (auto simp: wf_record_def)
    show ?thesis
    proof (cases "map_of cm ''response_id''")
      case None
      then show ?thesis using Some m cm
        by (simp add: send_data_def advance_parent_def record_deltas_def is_created_def answer_text_def)
    next
      case r: (Some r)
      then show ?thesis using Some m cm
        by (simp add: send_data_def advance_parent_def record_deltas_def is_created_def answer_text_def)
    qed
  qed
qed

lemma send_lines_wf:
  "wf_stream loads ls \<Longrightarrow>
   send_lines loads (cl, a) ls =
     Continue (stream_parent loads ls cl, a @ answer_text (stream_deltas loads ls))"
proof (induction ls arbitrary: cl a)
  case Nil
  then show ?case by (simp add: stream_parent_def stream_deltas_def answer_text_def)
next
  case (Cons l ls)
  have wf: "wf_stream loads ls" and wl: "wf_line loads l"
    using Cons.prems by (simp_all add: wf_stream_def)
  show ?case
  proof (cases "record_of loads l")
    case None
    then have "send_line loads (cl, a) l = Continue (cl, a)"
      using wl by (simp add: wf_line_def send_line_no_record)
    then show ?thesis using None Cons.IH [OF wf]
      by (simp add: stream_parent_def stream_deltas_def)
  next
    case (Some r)
    then have "wf_record r" using wl by (simp add: wf_line_def)
    then show ?thesis using Some Cons.IH [OF wf]
      by (simp add: send_line_record [OF Some] send_data_wf stream_parent_def stream_deltas_def
            answer_text_append)
  qed
qed

lemma chat_lines_append:
  "chat_lines loads markup_error st (xs @ ys) =
     (case chat_lines loads markup_error st xs of
        Continue st' \<Rightarrow> chat_lines loads markup_error st' ys
      | Broke st' \<Rightarrow> chat_lines loads markup_error st' ys
      | Raised e st' \<Rightarrow> Raised e st')"
  by (induction xs arbitrary: st) (simp_all split: step.splits)

lemma send_lines_append:
  "send_lines loads st (xs @ ys) =
     (case send_lines loads st xs of
        Continue st' \<Rightarrow> send_lines loads st' ys
      | Broke st' \<Rightarrow> send_lines loads st' ys
      | Raised e st' \<Rightarrow> Raised e st')"
  by (induction xs arbitrary: st) (simp_all split: step.splits)

lemma chat_lines_drop_noop:
  assumes "\<And>st. chat_line loads markup_error st l = Continue st"
  shows "chat_lines loads markup_error st (xs @ l # ys) = chat_lines loads markup_error st (xs @ ys)"
  by (simp add: chat_lines_append assms split: step.splits)

lemma send_lines_drop_noop:
  assumes "\<And>st. send_line loads st l = Continue st"
  shows "send_lines loads st (xs @ l # ys) = send_lines loads st (xs @ ys)"
  by (simp add: send_lines_append assms split: step.splits)

lemma chat_line_unparseable:
  "startswith l ''data:'' \<Longrightarrow> loads (strip (drop 5 l)) = Inl JSONDecodeError \<Longrightarrow>
   chat_line loads markup_error st l = Continue st"
  by (simp add: chat_line_def Let_def)

lemma send_line_unparseable:
  "startswith l ''data:'' \<Longrightarrow> loads (strip (drop 5 l)) = Inl JSONDecodeError \<Longrightarrow>
   send_line loads s l = Continue s"
  by (simp add: send_line_def Let_def)

lemma chat_turn_lines_cong:
  assumes "\<And>st. chat_lines loads markup_error st ls = chat_lines loads markup_error st ls'"
  shows "chat_turn cfg loads markup_error
           (env\<lparr>stream_result := Inr (resp\<lparr>stream_lines := ls\<rparr>)\<rparr>) c out p
       = chat_turn cfg loads markup_error
           (env\<lparr>stream_result := Inr (resp\<lparr>stream_lines := ls'\<rparr>)\<rparr>) c out p"
  by (simp add: chat_turn_def assms cong: step.case_cong)

lemma send_turn_lines_cong:
  assumes "\<And>st. send_lines loads st ls = send_lines loads st ls'"
  shows "send_turn loads (env\<lparr>stream_result := Inr (resp\<lparr>stream_lines := ls\<rparr>)\<rparr>) c
       = send_turn loads (env\<lparr>stream_result := Inr (resp\<lparr>stream_lines := ls'\<rparr>)\<rparr>) c"
  by (simp add: send_turn_def assms cong: step.case_cong)

lemma turn_request_stream [simp]:
  "turn_request cfg (env\<lparr>stream_result := x\<rparr>) c p = turn_request cfg env c p"
  by (simp add: turn_request_def turn_payload_def)

lemma chat_lines_cong:
  assumes "\<And>st. chat_lines loads markup_error st ls = chat_lines loads markup_error st ls'"
  shows "chat cfg loads markup_error
           (env\<lparr>stream_result := Inr (resp\<lparr>stream_lines := ls\<rparr>)\<rparr>) c p
       = chat cfg loads markup_error
           (env\<lparr>stream_result := Inr (resp\<lparr>stream_lines := ls'\<rparr>)\<rparr>) c p"
  unfolding chat_def Let_def by (simp add: chat_turn_lines_cong [OF assms] split: sum.split)

lemma send_message_lines_cong:
  assumes "\<And>st. send_lines loads st ls = send_lines loads st ls'"
  shows "send_message cfg loads markup_error
           (env\<lparr>stream_result := Inr (resp\<lparr>stream_lines := ls\<rparr>)\<rparr>) c p sp
       = send_message cfg loads markup_error
           (env\<lparr>stream_result := Inr (resp\<lparr>stream_lines := ls'\<rparr>)\<rparr>) c p sp"
  unfolding send_message_def Let_def
  by (simp add: send_turn_lines_cong [OF assms] split: sum.split)

lemma chat_line_sentinel:
  "startswith l ''data:'' \<Longrightarrow> strip (drop 5 l) = ''[DONE]'' \<Longrightarrow>
   chat_line loads markup_error st l = Continue st"
  by (simp add: chat_line_def Let_def)

lemma send_line_sentinel:
  "startswith l ''data:'' \<Longrightarrow> strip (drop 5 l) = ''[DONE]'' \<Longrightarrow> send_line loads s l = Continue s"
  by (simp add: send_line_def Let_def)

lemma phase_changed_eq:
  "phase_changed markup_error st ph =
     (if flush_raises markup_error st ph
      then Raised MarkupError
             (st\<lparr>console := console st @ [Stream_thinking (thinking_content st)]\<rparr>)
      else Continue (enter_phase st ph))"
  by (auto simp: phase_changed_def flush_raises_def flushing_def enter_phase_def Let_def)

lemma enter_phase_fields [simp]:
  "self (enter_phase st ph) = self st"
  "thinking_content (enter_phase st ph) = thinking_content st"
  "answer_content (enter_phase st ph) = answer_content st"
  by (simp_all add: enter_phase_def)

lemma flushing_self [simp]: "flushing (st\<lparr>self := x\<rparr>) ph = flushing st ph"
  by (simp add: flushing_def)

lemma flush_raises_self [simp]:
  "flush_raises markup_error (st\<lparr>self := x\<rparr>) ph = flush_raises markup_error st ph"
  by (simp add: flush_raises_def)

lemma enter_phase_self [simp]:
  "enter_phase (st\<lparr>self := x\<rparr>) ph = (enter_phase st ph)\<lparr>self := x\<rparr>"
  by (simp add: enter_phase_def)

lemma absorb_self [simp]: "absorb (st\<lparr>self := x\<rparr>) d = (absorb st d)\<lparr>self := x\<rparr>"
  by (simp add: absorb_def Let_def)

lemma foldl_absorb_self [simp]:
  "foldl absorb (st\<lparr>self := x\<rparr>) ds = (foldl absorb st ds)\<lparr>self := x\<rparr>"
  by (induction ds arbitrary: st) simp_all

lemma self_absorb [simp]: "self (absorb st d) = self st"
  by (simp add: absorb_def Let_def)

lemma self_foldl_absorb [simp]: "self (foldl absorb st ds) = self st"
  by (induction ds arbitrary: st) simp_all

lemma smooth_self [simp]:
  "smooth markup_error (st\<lparr>self := x\<rparr>) ds = smooth markup_error st ds"
  by (induction ds arbitrary: st) simp_all

lemma smooth_append:
  "smooth markup_error st (xs @ ys) =
     (smooth markup_error st xs \<and> smooth markup_error (foldl absorb st xs) ys)"
  by (induction xs arbitrary: st) simp_all

lemma chat_choice_wf:
  assumes "wf_choice c"
    and "\<not> flush_raises markup_error st (delta_phase (field c ''delta'' (JObj [])))"
  shows "chat_choice markup_error st c =
           (if finishing (field c ''delta'' (JObj []))
            then Broke (absorb st (field c ''delta'' (JObj [])))
            else Continue (absorb st (field c ''delta'' (JObj []))))"
proof -
  obtain m where c: "c = JObj m" using assms(1) by (cases c) (auto simp: wf_choice_def)
  obtain dm where d: "field c ''delta'' (JObj []) = JObj dm"
    using assms(1)
    by (cases "field c ''delta'' (JObj [])") (auto simp: wf_choice_def wf_delta_def)
  obtain s where s: "field (JObj dm) ''content'' (JStr []) = JStr s"
    using assms(1) d
    by (cases "field (JObj dm) ''content'' (JStr [])") (auto simp: wf_choice_def wf_delta_def)
  have g: "py_get c ''delta'' (JObj []) = Inr (JObj dm)" using c d by simp
  have gc: "py_get (JObj dm) ''content'' (JStr []) = Inr (JStr s)" using s by simp
  have gp: "py_get (JObj dm) ''phase'' (JStr ''answer'') = Inr (delta_phase (JObj dm))"
    by (simp add: delta_phase_def)
  have gs: "py_get (JObj dm) ''status'' (JStr []) = Inr (delta_status (JObj dm))"
    by (simp add: delta_status_def)
  have dc: "delta_content (JObj dm) = s" using s by (simp add: delta_content_def)
  have pc: "phase_changed markup_error st (delta_phase (JObj dm))
      = Continue (enter_phase st (delta_phase (JObj dm)))"
    using assms(2) by (simp add: phase_changed_eq d)
  have acc: "accumulate (enter_phase st (delta_phase (JObj dm))) (delta_phase (JObj dm)) (JStr s)
      = Inr (absorb st (JObj dm))"
    by (cases "s = []") (simp_all add: accumulate_def absorb_def Let_def dc)
  show ?thesis
    unfolding chat_choice_def g d
    by (simp only: gc gp gs pc acc sum.case step.case finishing_def py_eq_JStr_right)
qed

lemma chat_choices_wf:
  "list_all wf_choice cs \<Longrightarrow>
   smooth markup_error st (consumed (map (\<lambda>c. field c ''delta'' (JObj [])) cs)) \<Longrightarrow>
   chat_choices markup_error st cs =
     Continue (foldl absorb st (consumed (map (\<lambda>c. field c ''delta'' (JObj [])) cs)))"
proof (induction cs arbitrary: st)
  case Nil
  then show ?case by simp
next
  case (Cons c cs)
  have wc: "wf_choice c" and wcs: "list_all wf_choice cs" using Cons.prems(1) by simp_all
  have nf: "\<not> flush_raises markup_error st (delta_phase (field c ''delta'' (JObj [])))"
    using Cons.prems(2) by (simp split: if_splits)
  show ?case
  proof (cases "finishing (field c ''delta'' (JObj []))")
    case True
    then show ?thesis by (simp add: chat_choice_wf [OF wc nf])
  next
    case False
    then have "smooth markup_error (absorb st (field c ''delta'' (JObj [])))
                 (consumed (map (\<lambda>c. field c ''delta'' (JObj [])) cs))"
      using Cons.prems(2) by simp
    then show ?thesis
      using False Cons.IH [OF wcs] by (simp add: chat_choice_wf [OF wc nf])
  qed
qed

lemma chat_data_wf:
  assumes "wf_record data" and "smooth markup_error st (consumed (record_deltas data))"
  shows "chat_data markup_error st data =
           Continue (foldl absorb (st\<lparr>self := advance_parent data (self st)\<rparr>)
                      (consumed (record_deltas data)))"
proof -
  obtain m where m: "data = JObj m" using assms(1) by (cases data) (auto simp: wf_record_def)
  show ?thesis
  proof (cases "map_of m ''response.created''")
    case None
    show ?thesis
    proof (cases "map_of m ''choices''")
      case n2: None
      then show ?thesis using None m
        by (simp add: chat_data_def advance_parent_def record_deltas_def is_created_def)
    next
      case (Some ch)
      then obtain cs where cs: "ch = JArr cs" and wf: "list_all wf_choice cs"
        using assms(1) None m by (cases ch) (auto simp: wf_record_def)
      have sm: "smooth markup_error st (consumed (map (\<lambda>c. field c ''delta'' (JObj [])) cs))"
        using assms(2) None m Some cs by (simp add: record_deltas_def is_created_def)
      show ?thesis using None m Some cs
        by (simp add: chat_data_def advance_parent_def record_deltas_def is_created_def
              chat_choices_wf [OF wf sm])
    qed
  next
    case (Some ci)
    then obtain cm where cm: "ci = JObj cm"
      using assms(1) m by (cases ci) (auto simp: wf_record_def)
    show ?thesis
    proof (cases "map_of cm ''response_id''")
      case None
      then show ?thesis using Some m cm
        by (simp add: chat_data_def advance_parent_def record_deltas_def is_created_def)
    next
      case r: (Some r)
      then show ?thesis using Some m cm
        by (simp add: chat_data_def advance_parent_def record_deltas_def is_created_def)
    qed
  qed
qed

lemma chat_lines_wf:
  "wf_stream loads ls \<Longrightarrow> smooth markup_error st (chat_deltas loads ls) \<Longrightarrow>
   chat_lines loads markup_error st ls =
     Continue (foldl absorb (st\<lparr>self := stream_parent loads ls (self st)\<rparr>)
                (chat_deltas loads ls))"
proof (induction ls arbitrary: st)
  case Nil
  then show ?case by (simp add: stream_parent_def chat_deltas_def)
next
  case (Cons l ls)
  have wf: "wf_stream loads ls" and wl: "wf_line loads l"
    using Cons.prems(1) by (simp_all add: wf_stream_def)
  show ?case
  proof (cases "record_of loads l")
    case None
    then have step: "chat_line loads markup_error st l = Continue st"
      using wl by (simp add: wf_line_def chat_line_no_record)
    have "smooth markup_error st (chat_deltas loads ls)"
      using Cons.prems(2) None by (simp add: chat_deltas_def)
    then show ?thesis using None step Cons.IH [OF wf]
      by (simp add: stream_parent_def chat_deltas_def)
  next
    case (Some r)
    then have wr: "wf_record r" using wl by (simp add: wf_line_def)
    have cd: "chat_deltas loads (l # ls) = consumed (record_deltas r) @ chat_deltas loads ls"
      using Some by (simp add: chat_deltas_def)
    have sm1: "smooth markup_error st (consumed (record_deltas r))"
      and sm2: "smooth markup_error (foldl absorb st (consumed (record_deltas r)))
                  (chat_deltas loads ls)"
      using Cons.prems(2) by (simp_all add: cd smooth_append)
    define st1 where
      "st1 = foldl absorb (st\<lparr>self := advance_parent r (self st)\<rparr>) (consumed (record_deltas r))"
    have step: "chat_line loads markup_error st l = Continue st1"
      by (simp add: chat_line_record [OF Some] chat_data_wf [OF wr sm1] st1_def)
    have sm3: "smooth markup_error st1 (chat_deltas loads ls)"
      using sm2 by (simp add: st1_def)
    have sp: "stream_parent loads (l # ls) (self st)
        = stream_parent loads ls (advance_parent r (self st))"
      using Some by (simp add: stream_parent_def)
    show ?thesis
      using Cons.IH [OF wf sm3] step
      by (simp add: cd sp st1_def)
  qed
qed

lemma answer_content_absorb:
  "answer_content (absorb st d) = answer_content st @ other_text [d]"
  by (simp add: absorb_def Let_def other_text_def)

lemma thinking_content_absorb:
  "thinking_content (absorb st d) = thinking_content st @ reasoning_text [d]"
  by (simp add: absorb_def Let_def reasoning_text_def)

lemma other_text_append: "other_text (xs @ ys) = other_text xs @ other_text ys"
  by (simp add: other_text_def)

lemma reasoning_text_append: "reasoning_text (xs @ ys) = reasoning_text xs @ reasoning_text ys"
  by (simp add: reasoning_text_def)

lemma answer_content_foldl_absorb:
  "answer_content (foldl absorb st ds) = answer_content st @ other_text ds"
proof (induction ds arbitrary: st)
  case Nil
  then show ?case by (simp add: other_text_def)
next
  case (Cons d ds)
  have "other_text (d # ds) = other_text [d] @ other_text ds"
    using other_text_append [of "[d]" ds] by simp
  then show ?case by (simp add: Cons.IH answer_content_absorb)
qed

lemma thinking_content_foldl_absorb:
  "thinking_content (foldl absorb st ds) = thinking_content st @ reasoning_text ds"
proof (induction ds arbitrary: st)
  case Nil
  then show ?case by (simp add: reasoning_text_def)
next
  case (Cons d ds)
  have "reasoning_text (d # ds) = reasoning_text [d] @ reasoning_text ds"
    using reasoning_text_append [of "[d]" ds] by simp
  then show ?case by (simp add: Cons.IH thinking_content_absorb)
qed

lemma create_conversation_has_id:
  "truthy (conversation_id c) \<Longrightarrow>
   create_conversation cfg loads markup_error cenv c =
     \<lparr>returned = Inr (conversation_id c), after = c, sent = [], shown = []\<rparr>"
  by (simp add: create_conversation_def)

lemma chat_wf:
  assumes "turn_streams cfg loads markup_error env c resp"
    and "wf_stream loads (stream_lines resp)"
    and "smooth markup_error (turn_start cfg loads markup_error env c)
           (chat_deltas loads (stream_lines resp))"
  shows "chat cfg loads markup_error env c p =
     (let r = create_conversation cfg loads markup_error (creation env) c;
          st = foldl absorb
                 ((turn_start cfg loads markup_error env c)
                    \<lparr>self := stream_parent loads (stream_lines resp) (after r)\<rparr>)
                 (chat_deltas loads (stream_lines resp))
      in \<lparr>returned = Inr (Some (answer_content st)), after = self st,
           sent = sent r @ [turn_request cfg env (after r) p],
           shown = console st
             @ (if answer_content st \<noteq> [] then [Stream_live (answer_content st)] else [])\<rparr>)"
proof -
  obtain v where v: "returned (create_conversation cfg loads markup_error (creation env) c) = Inr v"
    and tv: "truthy v"
    using assms(1) by (auto simp: turn_streams_def has_conversation_def split: sum.splits)
  have ck: "truthy (cookies c)" and sr: "stream_result env = Inr resp"
    and ss: "stream_status resp = 200" and sb: "stream_breaks resp = None"
    using assms(1) by (simp_all add: turn_streams_def)
  show ?thesis
  proof (cases "truthy (conversation_id c)")
    case True
    have sm: "smooth markup_error
        \<lparr>self = c, thinking_content = [], answer_content = [], current_phase = JNull,
         console = [Print_status Sending_message]\<rparr> (chat_deltas loads (stream_lines resp))"
      using assms(3) True by (simp add: turn_start_def create_conversation_has_id)
    show ?thesis
      using True ck sr ss sb
      by (simp add: chat_def chat_turn_def Let_def chat_lines_wf [OF assms(2) sm] turn_start_def
            create_conversation_has_id)
  next
    case False
    have sm: "smooth markup_error
        \<lparr>self = after (create_conversation cfg loads markup_error (creation env) c),
         thinking_content = [], answer_content = [], current_phase = JNull,
         console = Print_status Creating_session
           # shown (create_conversation cfg loads markup_error (creation env) c)
           @ [Print_status Sending_message]\<rparr> (chat_deltas loads (stream_lines resp))"
      using assms(3) False by (simp add: turn_start_def)
    show ?thesis
      using False ck sr ss sb v tv
      by (simp add: chat_def chat_turn_def Let_def chat_lines_wf [OF assms(2) sm] turn_start_def)
  qed
qed

lemma send_message_wf:
  assumes "turn_streams cfg loads markup_error env c resp"
    and "wf_stream loads (stream_lines resp)"
  shows "send_message cfg loads markup_error env c p sp =
     (let r = create_conversation cfg loads markup_error (creation env) c
      in \<lparr>returned = Inr (Answer (answer_text (stream_deltas loads (stream_lines resp)))),
           after = stream_parent loads (stream_lines resp) (after r),
           sent = sent r @ [turn_request cfg env (after r) (full_prompt p sp)],
           shown = shown r\<rparr>)"
proof -
  obtain v where v: "returned (create_conversation cfg loads markup_error (creation env) c) = Inr v"
    and tv: "truthy v"
    using assms(1) by (auto simp: turn_streams_def has_conversation_def split: sum.splits)
  have ck: "truthy (cookies c)" and sr: "stream_result env = Inr resp"
    and ss: "stream_status resp = 200" and sb: "stream_breaks resp = None"
    using assms(1) by (simp_all add: turn_streams_def)
  show ?thesis
  proof (cases "truthy (conversation_id c)")
    case True
    then show ?thesis
      using ck sr ss sb
      by (simp add: send_message_def send_turn_def Let_def send_lines_wf [OF assms(2)]
            create_conversation_has_id)
  next
    case False
    then show ?thesis
      using ck sr ss sb v tv
      by (simp add: send_message_def send_turn_def Let_def send_lines_wf [OF assms(2)])
  qed
qed

lemma smooth_from_start:
  "current_phase st = JNull \<Longrightarrow> smooth markup_error st [d]"
  by (simp add: flush_raises_def flushing_def)

lemma concat_consumed_single:
  "concat xss = [d] \<Longrightarrow> concat (map consumed xss) = [d]"
proof (induction xss)
  case Nil
  then show ?case by simp
next
  case (Cons xs xss)
  then have "xs @ concat xss = [d]" by simp
  then consider "xs = []" "concat xss = [d]" | "xs = [d]" "concat xss = []"
    by (auto simp: append_eq_Cons_conv)
  then show ?case
  proof cases
    case 1
    then show ?thesis using Cons.IH by simp
  next
    case 2
    then have "\<forall>ys \<in> set xss. ys = []" by simp
    then have "concat (map consumed xss) = []" by auto
    then show ?thesis using 2 by simp
  qed
qed

lemma chat_deltas_single:
  assumes "stream_deltas loads ls = [d]"
  shows "chat_deltas loads ls = [d]"
proof -
  define f where "f = (\<lambda>l. case record_of loads l of None \<Rightarrow> [] | Some r \<Rightarrow> record_deltas r)"
  have 1: "chat_deltas loads ls = concat (map consumed (map f ls))"
    unfolding chat_deltas_def f_def
    by (simp add: comp_def option.case_distrib [of consumed] cong: option.case_cong)
  have 2: "concat (map f ls) = [d]"
    using assms unfolding stream_deltas_def f_def .
  show ?thesis
    using concat_consumed_single [OF 2] 1 by simp
qed

lemma flushes_append: "flushes (xs @ ys) = flushes xs @ flushes ys"
  by (induction xs rule: flushes.induct) simp_all

lemma think_step:
  "current_phase st = JStr ''think'' \<Longrightarrow> delta_phase d = JStr ''think'' \<Longrightarrow>
   absorb st d = st\<lparr>thinking_content := thinking_content st @ delta_content d\<rparr>
   \<and> \<not> flush_raises markup_error st (delta_phase d)"
  by (simp add: absorb_def enter_phase_def flush_raises_def flushing_def Let_def)

lemma answer_step:
  "current_phase st = JStr ''answer'' \<Longrightarrow> delta_phase d = JStr ''answer'' \<Longrightarrow>
   absorb st d = st\<lparr>answer_content := answer_content st @ delta_content d\<rparr>
   \<and> \<not> flush_raises markup_error st (delta_phase d)"
  by (simp add: absorb_def enter_phase_def flush_raises_def flushing_def Let_def)

lemma think_run:
  "current_phase st = JStr ''think'' \<Longrightarrow>
   list_all (\<lambda>d. delta_phase d = JStr ''think'') ds \<Longrightarrow>
   foldl absorb st ds = st\<lparr>thinking_content := thinking_content st @ concat (map delta_content ds)\<rparr>
   \<and> smooth markup_error st ds"
proof (induction ds arbitrary: st)
  case Nil
  then show ?case by simp
next
  case (Cons d ds)
  have a: "absorb st d = st\<lparr>thinking_content := thinking_content st @ delta_content d\<rparr>"
    and nf: "\<not> flush_raises markup_error st (delta_phase d)"
    using Cons.prems think_step [of st d markup_error] by simp_all
  have "foldl absorb (absorb st d) ds =
      (absorb st d)\<lparr>thinking_content := thinking_content (absorb st d) @ concat (map delta_content ds)\<rparr>
      \<and> smooth markup_error (absorb st d) ds"
    using Cons.prems by (intro Cons.IH) (simp_all add: a)
  then show ?case using nf by (simp add: a)
qed

lemma answer_run:
  "current_phase st = JStr ''answer'' \<Longrightarrow>
   list_all (\<lambda>d. delta_phase d = JStr ''answer'') ds \<Longrightarrow>
   foldl absorb st ds = st\<lparr>answer_content := answer_content st @ concat (map delta_content ds)\<rparr>
   \<and> smooth markup_error st ds"
proof (induction ds arbitrary: st)
  case Nil
  then show ?case by simp
next
  case (Cons d ds)
  have a: "absorb st d = st\<lparr>answer_content := answer_content st @ delta_content d\<rparr>"
    and nf: "\<not> flush_raises markup_error st (delta_phase d)"
    using Cons.prems answer_step [of st d markup_error] by simp_all
  have "foldl absorb (absorb st d) ds =
      (absorb st d)\<lparr>answer_content := answer_content (absorb st d) @ concat (map delta_content ds)\<rparr>
      \<and> smooth markup_error (absorb st d) ds"
    using Cons.prems by (intro Cons.IH) (simp_all add: a)
  then show ?case using nf by (simp add: a)
qed

lemma think_block:
  assumes "current_phase st \<noteq> JStr ''think''" and "reasoning_block ds"
  shows "foldl absorb st ds =
           st\<lparr>current_phase := JStr ''think'',
              thinking_content := thinking_content st @ concat (map delta_content ds)\<rparr>
         \<and> smooth markup_error st ds"
proof -
  obtain d ds' where ds: "ds = d # ds'"
    using assms(2) by (cases ds) (auto simp: reasoning_block_def)
  have ph: "delta_phase d = JStr ''think''" "list_all (\<lambda>d. delta_phase d = JStr ''think'') ds'"
    using assms(2) ds by (simp_all add: reasoning_block_def)
  have a: "absorb st d =
      st\<lparr>current_phase := JStr ''think'',
         thinking_content := thinking_content st @ delta_content d\<rparr>"
    using assms(1) ph(1) by (simp add: absorb_def enter_phase_def flushing_def Let_def)
  have nf: "\<not> flush_raises markup_error st (delta_phase d)"
    using assms(1) by (simp add: flush_raises_def flushing_def)
  have "foldl absorb (absorb st d) ds' =
      (absorb st d)\<lparr>thinking_content := thinking_content (absorb st d) @ concat (map delta_content ds')\<rparr>
      \<and> smooth markup_error (absorb st d) ds'"
    using ph(2) by (intro think_run) (simp_all add: a)
  then show ?thesis using nf by (simp add: a ds)
qed

lemma answer_after_think:
  assumes "current_phase st = JStr ''think''" and "answer_block ds"
    and "thinking_content st \<noteq> []" and "\<not> markup_error (JStr (thinking_content st))"
  shows "foldl absorb st ds =
           st\<lparr>console := console st
                 @ [Stream_thinking (thinking_content st), Print_response_start],
              current_phase := JStr ''answer'',
              answer_content := answer_content st @ concat (map delta_content ds)\<rparr>
         \<and> smooth markup_error st ds"
proof -
  obtain d ds' where ds: "ds = d # ds'"
    using assms(2) by (cases ds) (auto simp: answer_block_def)
  have ph: "delta_phase d = JStr ''answer''" "list_all (\<lambda>d. delta_phase d = JStr ''answer'') ds'"
    using assms(2) ds by (simp_all add: answer_block_def)
  have a: "absorb st d =
      st\<lparr>console := console st
                 @ [Stream_thinking (thinking_content st), Print_response_start],
         current_phase := JStr ''answer'',
         answer_content := answer_content st @ delta_content d\<rparr>"
    using assms(1,3) ph(1) by (simp add: absorb_def enter_phase_def flushing_def Let_def)
  have nf: "\<not> flush_raises markup_error st (delta_phase d)"
    using assms(4) by (simp add: flush_raises_def)
  have "foldl absorb (absorb st d) ds' =
      (absorb st d)\<lparr>answer_content := answer_content (absorb st d) @ concat (map delta_content ds')\<rparr>
      \<and> smooth markup_error (absorb st d) ds'"
    using ph(2) by (intro answer_run) (simp_all add: a)
  then show ?thesis using nf by (simp add: a ds)
qed

lemma one_block:
  assumes "current_phase st \<noteq> JStr ''think''" and "reasoning_block rs" and "answer_block as"
    and "\<not> markup_error (JStr (thinking_content st @ concat (map delta_content rs)))"
  shows "foldl absorb st (rs @ as) =
           st\<lparr>console := console st
                 @ [Stream_thinking (thinking_content st @ concat (map delta_content rs)),
                    Print_response_start],
              current_phase := JStr ''answer'',
              thinking_content := thinking_content st @ concat (map delta_content rs),
              answer_content := answer_content st @ concat (map delta_content as)\<rparr>
         \<and> smooth markup_error st (rs @ as)"
proof -
  have ne: "concat (map delta_content rs) \<noteq> []"
    using assms(2) by (simp add: reasoning_block_def)
  define st1 where
    "st1 = st\<lparr>current_phase := JStr ''think'',
              thinking_content := thinking_content st @ concat (map delta_content rs)\<rparr>"
  have t: "foldl absorb st rs = st1" "smooth markup_error st rs"
    using think_block [OF assms(1,2), of markup_error] by (simp_all add: st1_def)
  have p1: "current_phase st1 = JStr ''think''" and p2: "thinking_content st1 \<noteq> []"
    and p3: "\<not> markup_error (JStr (thinking_content st1))"
    using ne assms(4) by (simp_all add: st1_def)
  have a: "foldl absorb st1 as =
      st1\<lparr>console := console st1 @ [Stream_thinking (thinking_content st1), Print_response_start],
          current_phase := JStr ''answer'',
          answer_content := answer_content st1 @ concat (map delta_content as)\<rparr>"
    and s: "smooth markup_error st1 as"
    using answer_after_think [where markup_error = markup_error, OF p1 assms(3) p2 p3]
    by simp_all
  show ?thesis
    using t s by (simp add: smooth_append a) (simp add: st1_def)
qed

lemma blocks_run:
  "wf_blocks blocks \<Longrightarrow> current_phase st \<noteq> JStr ''think'' \<Longrightarrow>
   list_all (\<lambda>t. \<not> markup_error (JStr t))
     (cumulative (thinking_content st) (map (\<lambda>b. concat (map delta_content (fst b))) blocks)) \<Longrightarrow>
   flushes (console (foldl absorb st (interleaved blocks)))
     = flushes (console st)
       @ cumulative (thinking_content st) (map (\<lambda>b. concat (map delta_content (fst b))) blocks)
   \<and> answer_content (foldl absorb st (interleaved blocks))
     = answer_content st @ concat (map (\<lambda>b. concat (map delta_content (snd b))) blocks)
   \<and> smooth markup_error st (interleaved blocks)"
proof (induction blocks arbitrary: st)
  case Nil
  then show ?case by (simp add: interleaved_def)
next
  case (Cons b blocks)
  have wb: "reasoning_block (fst b)" "answer_block (snd b)" "wf_blocks blocks"
    using Cons.prems(1) by (simp_all add: wf_blocks_def)
  have r1: "\<not> markup_error (JStr (thinking_content st @ concat (map delta_content (fst b))))"
    using Cons.prems(3) by simp
  define st1 where "st1 = foldl absorb st (fst b @ snd b)"
  have st1: "st1 =
      st\<lparr>console := console st
            @ [Stream_thinking (thinking_content st @ concat (map delta_content (fst b))),
               Print_response_start],
         current_phase := JStr ''answer'',
         thinking_content := thinking_content st @ concat (map delta_content (fst b)),
         answer_content := answer_content st @ concat (map delta_content (snd b))\<rparr>"
    and sm1: "smooth markup_error st (fst b @ snd b)"
    unfolding st1_def
    using one_block [where markup_error = markup_error, OF Cons.prems(2) wb(1) wb(2) r1]
    by simp_all
  have ph: "current_phase st1 \<noteq> JStr ''think''" by (simp add: st1)
  have r2: "list_all (\<lambda>t. \<not> markup_error (JStr t))
     (cumulative (thinking_content st1) (map (\<lambda>b. concat (map delta_content (fst b))) blocks))"
    using Cons.prems(3) by (simp add: st1)
  have split: "foldl absorb st (interleaved (b # blocks)) = foldl absorb st1 (interleaved blocks)"
    by (simp add: interleaved_def st1_def)
  have il: "interleaved (b # blocks) = (fst b @ snd b) @ interleaved blocks"
    by (simp add: interleaved_def)
  have sm: "smooth markup_error st (interleaved (b # blocks))
      = smooth markup_error st1 (interleaved blocks)"
  proof -
    have "smooth markup_error st (interleaved (b # blocks))
        = (smooth markup_error st (fst b @ snd b)
           \<and> smooth markup_error st1 (interleaved blocks))"
      unfolding il st1_def by (rule smooth_append)
    then show ?thesis using sm1 by blast
  qed
  show ?case
    unfolding split sm
    using Cons.IH [OF wb(3) ph r2]
    by (simp add: st1 flushes_append)
qed

lemma flushes_read_creation:
  "flushes (fst (snd (read_creation loads markup_error c resp))) = []"
  by (simp add: read_creation_def Let_def split: option.splits sum.splits bool.splits)

lemma flushes_create_conversation:
  "flushes (shown (create_conversation cfg loads markup_error cenv c)) = []"
proof (cases "read_creation loads markup_error c (projr (post_result cenv))")
  case (fields c' out v)
  then have "flushes out = []"
    using flushes_read_creation [of loads markup_error c "projr (post_result cenv)"] by simp
  then show ?thesis
    using fields
    by (cases "post_result cenv"; cases v)
       (simp_all add: create_conversation_def flushes_append)
qed

lemma flushes_turn_start: "flushes (console (turn_start cfg loads markup_error env c)) = []"
  by (simp add: turn_start_def flushes_append flushes_create_conversation)

lemma length_cumulative: "length (cumulative acc rs) = length rs"
  by (induction rs arbitrary: acc) simp_all

section \<open>The token and the requests\<close>


lemma create_request_token [simp]:
  "create_request cfg env (c\<lparr>token := t\<rparr>) = create_request cfg env c"
  by (simp add: create_request_def get_headers_def)

lemma turn_request_token [simp]:
  "turn_request cfg env (c\<lparr>token := t\<rparr>) p = turn_request cfg env c p"
  by (simp add: turn_request_def turn_payload_def feature_config_def get_headers_def)





















lemma no_delta_after_finish_deltas:
  "no_delta_after_finish loads ls \<Longrightarrow> chat_deltas loads ls = stream_deltas loads ls"
  by (induction ls)
     (auto simp: no_delta_after_finish_def chat_deltas_def stream_deltas_def split: option.splits)


text \<open>
  A reasoning text that does not render: the flush raises \<^verbatim>\<open>MarkupError\<close>, the handler
  of lines 243 to 245 prints the exception, that print raises again, and the exception
  leaves \<^verbatim>\<open>chat\<close>.
\<close>

lemma flush_that_does_not_render:
  \<open>chat example_config example_loads example_markup_error
      (example_env [''data: {"choices":[{"delta":{"content":"see [/usr/bin]","phase":"think"}}]}'',
                    ''data: {"choices":[{"delta":{"content":"a1","phase":"answer"}}]}''])
      example_client ''hi''
    = \<lparr>returned = Inl MarkupError, after = example_client,
       sent = [turn_request example_config (example_env []) example_client ''hi''],
       shown = [Print_status Sending_message, Stream_thinking ''see [/usr/bin]'',
                Print_status (Error_during_chat MarkupError)]\<rparr>\<close>
  by code_simp

section \<open>The claims\<close>

text \<open>
  C7. For every stream, a record that carries the session-created signal (a
  \<^verbatim>\<open>response.created\<close> key whose value holds a \<^verbatim>\<open>response_id\<close>) sets the parent
  pointer to that \<^verbatim>\<open>response_id\<close> and changes nothing else: in \<^verbatim>\<open>chat\<close> the
  reasoning buffer, the answer buffer, the current phase and the console stay as they
  were, in \<^verbatim>\<open>send_message\<close> the answer buffer does.
\<close>

theorem created_record_advances_parent_only:
  assumes "record_of loads l = Some (JObj m)"
    and "map_of m ''response.created'' = Some (JObj info)"
    and "map_of info ''response_id'' = Some r"
  shows "chat_line loads markup_error st l = Continue (st\<lparr>self := (self st)\<lparr>parent_id := r\<rparr>\<rparr>)
       \<and> send_line loads (c, a) l = Continue (c\<lparr>parent_id := r\<rparr>, a)"
  using assms(2,3)
  by (simp add: chat_line_record [OF assms(1)] send_line_record [OF assms(1)]
        chat_data_def send_data_def)

theorem created_record_advances_parent_only_witness:
  \<open>chat_line example_loads example_markup_error example_state
      ''data: {"response.created":{"response_id":"r-1"}}''
    = Continue (example_state\<lparr>self := (self example_state)\<lparr>parent_id := JStr ''r-1''\<rparr>\<rparr>)
   \<and> send_line example_loads (example_client, ''a1'')
      ''data: {"response.created":{"response_id":"r-1"}}''
    = Continue (example_client\<lparr>parent_id := JStr ''r-1''\<rparr>, ''a1'')\<close>
proof -
  have r: \<open>record_of example_loads ''data: {"response.created":{"response_id":"r-1"}}''
      = Some (JObj [(''response.created'', JObj [(''response_id'', JStr ''r-1'')])])\<close>
    by code_simp
  show ?thesis
    using created_record_advances_parent_only
      [where loads = example_loads and markup_error = example_markup_error
         and info = "[(''response_id'', JStr ''r-1'')]" and r = "JStr ''r-1''"
         and st = example_state and c = example_client and a = "''a1''", OF r]
    by simp
qed

text \<open>
  C3. The claim: at a data line whose payload is the sentinel \<^verbatim>\<open>[DONE]\<close> the decoder
  ends the stream, so that lines after the sentinel change neither the returned answer
  nor the reasoning buffer. The code does not end the stream there (lines 182 and 340
  \<^verbatim>\<open>continue\<close>): a content line after the sentinel is decoded like any other.
\<close>

theorem content_after_sentinel_counterexample:
  \<open>returned (chat example_config example_loads example_markup_error
       (example_env [''data: [DONE]'']) example_client ''hi'') = Inr (Some [])
   \<and> returned (chat example_config example_loads example_markup_error
       (example_env [''data: [DONE]'',
                     ''data: {"choices":[{"delta":{"content":"a1","phase":"answer"}}]}''])
       example_client ''hi'') = Inr (Some ''a1'')
   \<and> returned (send_message example_config example_loads example_markup_error
       (example_env [''data: [DONE]'']) example_client ''hi'' None) = Inr (Answer [])
   \<and> returned (send_message example_config example_loads example_markup_error
       (example_env [''data: [DONE]'',
                     ''data: {"choices":[{"delta":{"content":"a1","phase":"answer"}}]}''])
       example_client ''hi'' None) = Inr (Answer ''a1'')
   \<and> chat_lines example_loads example_markup_error example_state
       [''data: [DONE]'', ''data: {"choices":[{"delta":{"content":"r2","phase":"think"}}]}'']
       = Continue (example_state\<lparr>thinking_content := ''r1r2'', current_phase := JStr ''think''\<rparr>)\<close>
  by code_simp

text \<open>
  C3, as amended. A data line whose payload is \<^verbatim>\<open>[DONE]\<close> is skipped: it leaves the
  state of either decoder, with both buffers and the parent pointer, as it was, it does
  not end the decoding, and the turn gives what it gives without that line. A stream
  that ends at the sentinel therefore returns what was accumulated before it.
\<close>

theorem sentinel_line_is_skipped:
  assumes "startswith l ''data:''" and "strip (drop 5 l) = ''[DONE]''"
  shows "chat_line loads markup_error st l = Continue st
       \<and> send_line loads s l = Continue s
       \<and> chat cfg loads markup_error
             (env\<lparr>stream_result := Inr (resp\<lparr>stream_lines := xs @ l # ys\<rparr>)\<rparr>) c p
           = chat cfg loads markup_error
             (env\<lparr>stream_result := Inr (resp\<lparr>stream_lines := xs @ ys\<rparr>)\<rparr>) c p
       \<and> send_message cfg loads markup_error
             (env\<lparr>stream_result := Inr (resp\<lparr>stream_lines := xs @ l # ys\<rparr>)\<rparr>) c p sp
           = send_message cfg loads markup_error
             (env\<lparr>stream_result := Inr (resp\<lparr>stream_lines := xs @ ys\<rparr>)\<rparr>) c p sp"
proof -
  have a: "\<And>st. chat_line loads markup_error st l = Continue st"
    using assms by (rule chat_line_sentinel)
  have b: "\<And>s. send_line loads s l = Continue s"
    using assms by (rule send_line_sentinel)
  have "chat cfg loads markup_error
             (env\<lparr>stream_result := Inr (resp\<lparr>stream_lines := xs @ l # ys\<rparr>)\<rparr>) c p
           = chat cfg loads markup_error
             (env\<lparr>stream_result := Inr (resp\<lparr>stream_lines := xs @ ys\<rparr>)\<rparr>) c p"
    by (rule chat_lines_cong) (rule chat_lines_drop_noop [OF a])
  moreover have "send_message cfg loads markup_error
             (env\<lparr>stream_result := Inr (resp\<lparr>stream_lines := xs @ l # ys\<rparr>)\<rparr>) c p sp
           = send_message cfg loads markup_error
             (env\<lparr>stream_result := Inr (resp\<lparr>stream_lines := xs @ ys\<rparr>)\<rparr>) c p sp"
    by (rule send_message_lines_cong) (rule send_lines_drop_noop [OF b])
  ultimately show ?thesis using a b by simp
qed

theorem sentinel_line_is_skipped_witness:
  \<open>startswith ''data: [DONE]'' ''data:''
   \<and> strip (drop 5 ''data: [DONE]'') = ''[DONE]''
   \<and> chat_line example_loads example_markup_error example_state ''data: [DONE]''
       = Continue example_state
   \<and> send_line example_loads (example_client, ''a1'') ''data: [DONE]''
       = Continue (example_client, ''a1'')
   \<and> chat example_config example_loads example_markup_error
         (example_env [''data: {"choices":[{"delta":{"content":"a1","phase":"answer"}}]}'',
                       ''data: [DONE]''])
         example_client ''hi''
       = chat example_config example_loads example_markup_error
         (example_env [''data: {"choices":[{"delta":{"content":"a1","phase":"answer"}}]}''])
         example_client ''hi''
   \<and> send_message example_config example_loads example_markup_error
         (example_env [''data: {"choices":[{"delta":{"content":"a1","phase":"answer"}}]}'',
                       ''data: [DONE]''])
         example_client ''hi'' None
       = send_message example_config example_loads example_markup_error
         (example_env [''data: {"choices":[{"delta":{"content":"a1","phase":"answer"}}]}''])
         example_client ''hi'' None\<close>
proof -
  let ?a1 = \<open>''data: {"choices":[{"delta":{"content":"a1","phase":"answer"}}]}''\<close>
  let ?done = "''data: [DONE]''"
  let ?resp = "\<lparr>stream_status = 200, stream_lines = [], stream_breaks = None,
                 error_text = None\<rparr>"
  have h1: "startswith ?done ''data:''" by (simp add: startswith_def)
  have h2: "strip (drop 5 ?done) = ''[DONE]''"
    by (simp add: strip_def isspace_def)
  have e1: "example_env [?a1, ?done]
      = (example_env [])\<lparr>stream_result := Inr (?resp\<lparr>stream_lines := [?a1] @ ?done # []\<rparr>)\<rparr>"
    by (simp add: example_env_def example_response_def)
  have e2: "example_env [?a1]
      = (example_env [])\<lparr>stream_result := Inr (?resp\<lparr>stream_lines := [?a1] @ []\<rparr>)\<rparr>"
    by (simp add: example_env_def example_response_def)
  show ?thesis
    unfolding e1 e2
    using h1 h2
      sentinel_line_is_skipped [where l = ?done and loads = example_loads
        and markup_error = example_markup_error
        and st = example_state and s = "(example_client, ''a1'')" and cfg = example_config
        and env = "example_env []" and resp = ?resp and xs = "[?a1]" and ys = "[]"
        and c = example_client and p = "''hi''" and sp = None, OF h1 h2]
    by blast
qed

text \<open>
  C9. The two decoders classify phases differently: on a well-formed stream with a single
  delta, \<^verbatim>\<open>chat\<close> returns its content unless its phase is \<^verbatim>\<open>think\<close>, while
  \<^verbatim>\<open>send_message\<close> returns it only when its phase is \<^verbatim>\<open>answer\<close>. Hence for a delta
  whose phase is neither, \<^verbatim>\<open>chat\<close> returns the content and \<^verbatim>\<open>send_message\<close> the
  empty string, on the same lines.
\<close>

theorem chat_and_send_message_classify_differently:
  assumes "turn_streams cfg loads markup_error env c resp"
    and "wf_stream loads (stream_lines resp)"
    and "stream_deltas loads (stream_lines resp) = [d]"
  shows "returned (chat cfg loads markup_error env c p)
           = Inr (Some (if delta_phase d = JStr ''think'' then [] else delta_content d))
       \<and> returned (send_message cfg loads markup_error env c p sp)
           = Inr (Answer (if delta_phase d = JStr ''answer'' then delta_content d else []))
       \<and> (delta_phase d \<noteq> JStr ''think'' \<and> delta_phase d \<noteq> JStr ''answer''
          \<longrightarrow> returned (chat cfg loads markup_error env c p) = Inr (Some (delta_content d))
              \<and> returned (send_message cfg loads markup_error env c p sp) = Inr (Answer []))"
proof -
  have cd: "chat_deltas loads (stream_lines resp) = [d]"
    using assms(3) by (rule chat_deltas_single)
  have sm: "smooth markup_error (turn_start cfg loads markup_error env c)
              (chat_deltas loads (stream_lines resp))"
    unfolding cd by (rule smooth_from_start) (simp add: turn_start_def)
  have a: "returned (send_message cfg loads markup_error env c p sp)
           = Inr (Answer (if delta_phase d = JStr ''answer'' then delta_content d else []))"
    by (simp add: send_message_wf [OF assms(1,2)] Let_def assms(3) answer_text_def)
  have b: "returned (chat cfg loads markup_error env c p)
           = Inr (Some (if delta_phase d = JStr ''think'' then [] else delta_content d))"
    by (simp add: chat_wf [OF assms(1,2) sm] Let_def answer_content_absorb turn_start_def
          cd other_text_def)
  show ?thesis using a b by simp
qed

theorem chat_and_send_message_classify_differently_witness:
  \<open>turn_streams example_config example_loads example_markup_error
      (example_env [''data: {"choices":[{"delta":{"content":"x","phase":"other"}}]}''])
      example_client
      (example_response [''data: {"choices":[{"delta":{"content":"x","phase":"other"}}]}''])
   \<and> wf_stream example_loads
      [''data: {"choices":[{"delta":{"content":"x","phase":"other"}}]}'']
   \<and> stream_deltas example_loads
      [''data: {"choices":[{"delta":{"content":"x","phase":"other"}}]}'']
      = [JObj [(''content'', JStr ''x''), (''phase'', JStr ''other'')]]
   \<and> returned (chat example_config example_loads example_markup_error
      (example_env [''data: {"choices":[{"delta":{"content":"x","phase":"other"}}]}''])
      example_client ''hi'') = Inr (Some ''x'')
   \<and> returned (send_message example_config example_loads example_markup_error
      (example_env [''data: {"choices":[{"delta":{"content":"x","phase":"other"}}]}''])
      example_client ''hi'' None) = Inr (Answer [])\<close>
proof -
  let ?ls = \<open>[''data: {"choices":[{"delta":{"content":"x","phase":"other"}}]}'']\<close>
  let ?d = "JObj [(''content'', JStr ''x''), (''phase'', JStr ''other'')]"
  have h1: "turn_streams example_config example_loads example_markup_error (example_env ?ls)
              example_client (example_response ?ls)"
    by code_simp
  have h2: "wf_stream example_loads (stream_lines (example_response ?ls))"
    by code_simp
  have h2': "wf_stream example_loads ?ls"
    by code_simp
  have h3: "stream_deltas example_loads (stream_lines (example_response ?ls)) = [?d]"
    by code_simp
  have h3': "stream_deltas example_loads ?ls = [?d]"
    by code_simp
  have v: "delta_phase ?d = JStr ''other''" "delta_content ?d = ''x''"
    by (simp_all add: delta_phase_def delta_content_def)
  show ?thesis
    using chat_and_send_message_classify_differently [OF h1 h2 h3, of "''hi''" None]
      h1 h2' h3' v
    by simp
qed

text \<open>
  C1. The claim: for every well-formed stream that ends with the sentinel, the answer
  returned by \<^verbatim>\<open>chat\<close> and by \<^verbatim>\<open>send_message\<close> is the concatenation, in arrival
  order, of the content of every delta whose phase (\<^verbatim>\<open>answer\<close> when absent) is
  \<^verbatim>\<open>answer\<close>. \<^verbatim>\<open>send_message\<close> does this (line 358). \<^verbatim>\<open>chat\<close> does not: it appends
  the content of a delta of any phase but \<^verbatim>\<open>think\<close> to the answer (the \<^verbatim>\<open>else\<close> of
  line 228), and its \<^verbatim>\<open>break\<close> (line 232) leaves the loop over the choices of one
  record only, so that the deltas after a finished one in the same record are dropped.
  On the first stream below, with a delta of phase \<^verbatim>\<open>other\<close>, the claim and
  \<^verbatim>\<open>send_message\<close> give the empty answer and \<^verbatim>\<open>chat\<close> gives \<^verbatim>\<open>x\<close>; on the second,
  whose deltas are all of phase \<^verbatim>\<open>answer\<close>, the claim and \<^verbatim>\<open>send_message\<close> give
  \<^verbatim>\<open>ab\<close> and \<^verbatim>\<open>chat\<close> gives \<^verbatim>\<open>a\<close>.
\<close>

theorem chat_answer_diverges:
  \<open>wf_stream example_loads
      [''data: {"choices":[{"delta":{"content":"x","phase":"other"}}]}'', ''data: [DONE]'']
   \<and> ends_with_sentinel
      [''data: {"choices":[{"delta":{"content":"x","phase":"other"}}]}'', ''data: [DONE]'']
   \<and> answer_text (stream_deltas example_loads
      [''data: {"choices":[{"delta":{"content":"x","phase":"other"}}]}'', ''data: [DONE]''])
      = []
   \<and> returned (send_message example_config example_loads example_markup_error
      (example_env
         [''data: {"choices":[{"delta":{"content":"x","phase":"other"}}]}'', ''data: [DONE]''])
      example_client ''hi'' None) = Inr (Answer [])
   \<and> returned (chat example_config example_loads example_markup_error
      (example_env
         [''data: {"choices":[{"delta":{"content":"x","phase":"other"}}]}'', ''data: [DONE]''])
      example_client ''hi'') = Inr (Some ''x'')
   \<and> wf_stream example_loads
      [''data: {"choices":[{"delta":{"content":"a","phase":"answer","status":"finished"}},{"delta":{"content":"b","phase":"answer"}}]}'',
       ''data: [DONE]'']
   \<and> ends_with_sentinel
      [''data: {"choices":[{"delta":{"content":"a","phase":"answer","status":"finished"}},{"delta":{"content":"b","phase":"answer"}}]}'',
       ''data: [DONE]'']
   \<and> answer_text (stream_deltas example_loads
      [''data: {"choices":[{"delta":{"content":"a","phase":"answer","status":"finished"}},{"delta":{"content":"b","phase":"answer"}}]}'',
       ''data: [DONE]''])
      = ''ab''
   \<and> returned (send_message example_config example_loads example_markup_error
      (example_env
         [''data: {"choices":[{"delta":{"content":"a","phase":"answer","status":"finished"}},{"delta":{"content":"b","phase":"answer"}}]}'',
          ''data: [DONE]''])
      example_client ''hi'' None) = Inr (Answer ''ab'')
   \<and> returned (chat example_config example_loads example_markup_error
      (example_env
         [''data: {"choices":[{"delta":{"content":"a","phase":"answer","status":"finished"}},{"delta":{"content":"b","phase":"answer"}}]}'',
          ''data: [DONE]''])
      example_client ''hi'') = Inr (Some ''a'')\<close>
  by code_simp

text \<open>
  C2. The claim: on a stream that goes reasoning, answer, reasoning, answer, \<^verbatim>\<open>chat\<close>
  flushes the reasoning buffer once at each change from reasoning to answer, each flush
  showing only the reasoning of the block just completed. The buffer is never emptied
  (\<^verbatim>\<open>thinking_content\<close> is only ever appended to, line 227), so the second flush
  shows the first block again.
\<close>

theorem second_flush_counterexample:
  \<open>wf_stream example_loads
      [''data: {"choices":[{"delta":{"content":"r1","phase":"think"}}]}'',
       ''data: {"choices":[{"delta":{"content":"a1","phase":"answer"}}]}'',
       ''data: {"choices":[{"delta":{"content":"r2","phase":"think"}}]}'',
       ''data: {"choices":[{"delta":{"content":"a2","phase":"answer"}}]}'',
       ''data: [DONE]'']
   \<and> shown (chat example_config example_loads example_markup_error
      (example_env [''data: {"choices":[{"delta":{"content":"r1","phase":"think"}}]}'',
                    ''data: {"choices":[{"delta":{"content":"a1","phase":"answer"}}]}'',
                    ''data: {"choices":[{"delta":{"content":"r2","phase":"think"}}]}'',
                    ''data: {"choices":[{"delta":{"content":"a2","phase":"answer"}}]}'',
                    ''data: [DONE]''])
      example_client ''hi'')
     = [Print_status Sending_message, Stream_thinking ''r1'', Print_response_start,
        Stream_thinking ''r1r2'', Print_response_start, Stream_live ''a1a2'']
   \<and> flushes (shown (chat example_config example_loads example_markup_error
      (example_env [''data: {"choices":[{"delta":{"content":"r1","phase":"think"}}]}'',
                    ''data: {"choices":[{"delta":{"content":"a1","phase":"answer"}}]}'',
                    ''data: {"choices":[{"delta":{"content":"r2","phase":"think"}}]}'',
                    ''data: {"choices":[{"delta":{"content":"a2","phase":"answer"}}]}'',
                    ''data: [DONE]''])
      example_client ''hi'')) \<noteq> [''r1'', ''r2'']\<close>
  by code_simp

text \<open>
  C2, as amended. On a well-formed stream in which no record carries a delta after a
  finishing one, whose deltas interleave blocks of reasoning (each with some content)
  and of answer, and whose flushed texts all render as console markup, \<^verbatim>\<open>chat\<close> calls
  \<^verbatim>\<open>stream_thinking\<close> once at each change from reasoning to answer and at no other
  time, the \<open>i\<close>-th call showing all the reasoning text of the blocks 1 to \<open>i\<close>; and it
  returns the concatenation of all the answer text, however many changes there are.
\<close>

theorem reasoning_flushes_are_cumulative:
  assumes "turn_streams cfg loads markup_error env c resp"
    and "wf_stream loads (stream_lines resp)"
    and "no_delta_after_finish loads (stream_lines resp)"
    and "stream_deltas loads (stream_lines resp) = interleaved blocks"
    and "wf_blocks blocks"
    and "flushes_render markup_error blocks"
  shows "flushes (shown (chat cfg loads markup_error env c p))
           = cumulative [] (map (\<lambda>b. concat (map delta_content (fst b))) blocks)
       \<and> length (flushes (shown (chat cfg loads markup_error env c p))) = length blocks
       \<and> returned (chat cfg loads markup_error env c p)
           = Inr (Some (concat (map (\<lambda>b. concat (map delta_content (snd b))) blocks)))"
proof -
  define st0 where
    "st0 = (turn_start cfg loads markup_error env c)
       \<lparr>self := stream_parent loads (stream_lines resp)
                  (after (create_conversation cfg loads markup_error (creation env) c))\<rparr>"
  have cd: "chat_deltas loads (stream_lines resp) = interleaved blocks"
    using no_delta_after_finish_deltas [OF assms(3)] assms(4) by simp
  have ph: "current_phase st0 \<noteq> JStr ''think''"
    by (simp add: st0_def turn_start_def)
  have f0: "flushes (console st0) = []"
    using flushes_turn_start [of cfg loads markup_error env c] by (simp add: st0_def)
  have t0: "thinking_content st0 = []" "answer_content st0 = []"
    by (simp_all add: st0_def turn_start_def)
  have rn: "list_all (\<lambda>t. \<not> markup_error (JStr t))
     (cumulative (thinking_content st0) (map (\<lambda>b. concat (map delta_content (fst b))) blocks))"
    using assms(6) by (simp add: flushes_render_def t0)
  have run: "flushes (console (foldl absorb st0 (interleaved blocks)))
       = cumulative [] (map (\<lambda>b. concat (map delta_content (fst b))) blocks)
     \<and> answer_content (foldl absorb st0 (interleaved blocks))
       = concat (map (\<lambda>b. concat (map delta_content (snd b))) blocks)
     \<and> smooth markup_error st0 (interleaved blocks)"
    using blocks_run [where markup_error = markup_error, OF assms(5) ph rn] by (simp add: f0 t0)
  have sm: "smooth markup_error (turn_start cfg loads markup_error env c)
              (chat_deltas loads (stream_lines resp))"
    using run by (simp add: cd st0_def)
  have c: "chat cfg loads markup_error env c p =
      \<lparr>returned = Inr (Some (answer_content (foldl absorb st0 (interleaved blocks)))),
       after = self (foldl absorb st0 (interleaved blocks)),
       sent = sent (create_conversation cfg loads markup_error (creation env) c)
         @ [turn_request cfg env
              (after (create_conversation cfg loads markup_error (creation env) c)) p],
       shown = console (foldl absorb st0 (interleaved blocks))
         @ (if answer_content (foldl absorb st0 (interleaved blocks)) \<noteq> []
            then [Stream_live (answer_content (foldl absorb st0 (interleaved blocks)))]
            else [])\<rparr>"
    using chat_wf [OF assms(1,2) sm, of p] by (simp add: Let_def st0_def cd)
  show ?thesis
    using run by (simp add: c flushes_append length_cumulative)
qed

theorem reasoning_flushes_are_cumulative_witness:
  \<open>turn_streams example_config example_loads example_markup_error
      (example_env [''data: {"choices":[{"delta":{"content":"r1","phase":"think"}}]}'',
                    ''data: {"choices":[{"delta":{"content":"a1","phase":"answer"}}]}'',
                    ''data: {"choices":[{"delta":{"content":"r2","phase":"think"}}]}'',
                    ''data: {"choices":[{"delta":{"content":"a2","phase":"answer"}}]}'',
                    ''data: [DONE]''])
      example_client
      (example_response [''data: {"choices":[{"delta":{"content":"r1","phase":"think"}}]}'',
                    ''data: {"choices":[{"delta":{"content":"a1","phase":"answer"}}]}'',
                    ''data: {"choices":[{"delta":{"content":"r2","phase":"think"}}]}'',
                    ''data: {"choices":[{"delta":{"content":"a2","phase":"answer"}}]}'',
                    ''data: [DONE]''])
   \<and> wf_blocks
      [([JObj [(''content'', JStr ''r1''), (''phase'', JStr ''think'')]],
        [JObj [(''content'', JStr ''a1''), (''phase'', JStr ''answer'')]]),
       ([JObj [(''content'', JStr ''r2''), (''phase'', JStr ''think'')]],
        [JObj [(''content'', JStr ''a2''), (''phase'', JStr ''answer'')]])]
   \<and> flushes_render example_markup_error
      [([JObj [(''content'', JStr ''r1''), (''phase'', JStr ''think'')]],
        [JObj [(''content'', JStr ''a1''), (''phase'', JStr ''answer'')]]),
       ([JObj [(''content'', JStr ''r2''), (''phase'', JStr ''think'')]],
        [JObj [(''content'', JStr ''a2''), (''phase'', JStr ''answer'')]])]
   \<and> flushes (shown (chat example_config example_loads example_markup_error
      (example_env [''data: {"choices":[{"delta":{"content":"r1","phase":"think"}}]}'',
                    ''data: {"choices":[{"delta":{"content":"a1","phase":"answer"}}]}'',
                    ''data: {"choices":[{"delta":{"content":"r2","phase":"think"}}]}'',
                    ''data: {"choices":[{"delta":{"content":"a2","phase":"answer"}}]}'',
                    ''data: [DONE]''])
      example_client ''hi'')) = [''r1'', ''r1r2'']
   \<and> returned (chat example_config example_loads example_markup_error
      (example_env [''data: {"choices":[{"delta":{"content":"r1","phase":"think"}}]}'',
                    ''data: {"choices":[{"delta":{"content":"a1","phase":"answer"}}]}'',
                    ''data: {"choices":[{"delta":{"content":"r2","phase":"think"}}]}'',
                    ''data: {"choices":[{"delta":{"content":"a2","phase":"answer"}}]}'',
                    ''data: [DONE]''])
      example_client ''hi'') = Inr (Some ''a1a2'')\<close>
proof -
  let ?ls = \<open>[''data: {"choices":[{"delta":{"content":"r1","phase":"think"}}]}'',
              ''data: {"choices":[{"delta":{"content":"a1","phase":"answer"}}]}'',
              ''data: {"choices":[{"delta":{"content":"r2","phase":"think"}}]}'',
              ''data: {"choices":[{"delta":{"content":"a2","phase":"answer"}}]}'',
              ''data: [DONE]'']\<close>
  let ?blocks =
    "[([JObj [(''content'', JStr ''r1''), (''phase'', JStr ''think'')]],
       [JObj [(''content'', JStr ''a1''), (''phase'', JStr ''answer'')]]),
      ([JObj [(''content'', JStr ''r2''), (''phase'', JStr ''think'')]],
       [JObj [(''content'', JStr ''a2''), (''phase'', JStr ''answer'')]])]"
  have h1: "turn_streams example_config example_loads example_markup_error (example_env ?ls)
              example_client (example_response ?ls)"
    by code_simp
  have h2: "wf_stream example_loads (stream_lines (example_response ?ls))"
    by code_simp
  have h3: "no_delta_after_finish example_loads (stream_lines (example_response ?ls))"
    by code_simp
  have h4: "stream_deltas example_loads (stream_lines (example_response ?ls)) = interleaved ?blocks"
    by code_simp
  have h5: "wf_blocks ?blocks"
    by code_simp
  have h6: "flushes_render example_markup_error ?blocks"
    by code_simp
  have v1: "cumulative [] (map (\<lambda>b. concat (map delta_content (fst b))) ?blocks) = [''r1'', ''r1r2'']"
    by code_simp
  have v2: "concat (map (\<lambda>b. concat (map delta_content (snd b))) ?blocks) = ''a1a2''"
    by code_simp
  note t = reasoning_flushes_are_cumulative [OF h1 h2 h3 h4 h5 h6, of "''hi''"]
  show ?thesis
    using h1 h5 h6 t [unfolded v1 v2] by blast
qed

text \<open>
  C4. The claim: a data line whose payload fails to parse as a structured record is
  skipped, leaves both buffers and the parent pointer as they were, and never aborts
  the turn. A payload that is JSON and no record fails it: on \<^verbatim>\<open>5\<close> the test of line
  189 (346) raises \<^verbatim>\<open>TypeError\<close>, which lines 234 and 361 do not catch; \<^verbatim>\<open>chat\<close> prints
  the error and returns \<^verbatim>\<open>None\<close>, \<^verbatim>\<open>send_message\<close> returns the error text, where
  without that line both return \<^verbatim>\<open>a1a2\<close>.
\<close>

theorem frame_that_is_no_record_counterexample:
  \<open>returned (chat example_config example_loads example_markup_error
      (example_env [''data: {"choices":[{"delta":{"content":"a1","phase":"answer"}}]}'',
                    ''data: {"choices":[{"delta":{"content":"a2","phase":"answer"}}]}''])
      example_client ''hi'') = Inr (Some ''a1a2'')
   \<and> chat example_config example_loads example_markup_error
      (example_env [''data: {"choices":[{"delta":{"content":"a1","phase":"answer"}}]}'',
                    ''data: 5'',
                    ''data: {"choices":[{"delta":{"content":"a2","phase":"answer"}}]}''])
      example_client ''hi''
     = \<lparr>returned = Inr None, after = example_client,
        sent = [turn_request example_config (example_env []) example_client ''hi''],
        shown = [Print_status Sending_message, Print_status (Error_during_chat TypeError)]\<rparr>
   \<and> returned (send_message example_config example_loads example_markup_error
      (example_env [''data: {"choices":[{"delta":{"content":"a1","phase":"answer"}}]}'',
                    ''data: {"choices":[{"delta":{"content":"a2","phase":"answer"}}]}''])
      example_client ''hi'' None) = Inr (Answer ''a1a2'')
   \<and> returned (send_message example_config example_loads example_markup_error
      (example_env [''data: {"choices":[{"delta":{"content":"a1","phase":"answer"}}]}'',
                    ''data: 5'',
                    ''data: {"choices":[{"delta":{"content":"a2","phase":"answer"}}]}''])
      example_client ''hi'' None) = Inr (Error_exception TypeError)
   \<and> chat_line example_loads example_markup_error example_state ''data: 5''
     = Raised TypeError example_state
   \<and> send_line example_loads (example_client, ''a1'') ''data: 5''
     = Raised TypeError (example_client, ''a1'')
   \<and> chat_line example_loads example_markup_error example_state ''data: {broken''
     = Continue example_state
   \<and> send_line example_loads (example_client, ''a1'') ''data: {broken''
     = Continue (example_client, ''a1'')\<close>
  by code_simp

text \<open>
  C4, as amended. A data line whose payload is not JSON (\<^verbatim>\<open>json.loads\<close> raises
  \<^verbatim>\<open>JSONDecodeError\<close>) is skipped: it leaves the state of either decoder, with both
  buffers and the parent pointer, as it was, and the whole turn gives what it gives
  without that line, so the line cannot make the turn fail.
\<close>

theorem unparseable_line_is_skipped:
  assumes "startswith l ''data:''" and "loads (strip (drop 5 l)) = Inl JSONDecodeError"
  shows "chat_line loads markup_error st l = Continue st
       \<and> send_line loads s l = Continue s
       \<and> chat cfg loads markup_error
             (env\<lparr>stream_result := Inr (resp\<lparr>stream_lines := xs @ l # ys\<rparr>)\<rparr>) c p
           = chat cfg loads markup_error
             (env\<lparr>stream_result := Inr (resp\<lparr>stream_lines := xs @ ys\<rparr>)\<rparr>) c p
       \<and> send_message cfg loads markup_error
             (env\<lparr>stream_result := Inr (resp\<lparr>stream_lines := xs @ l # ys\<rparr>)\<rparr>) c p sp
           = send_message cfg loads markup_error
             (env\<lparr>stream_result := Inr (resp\<lparr>stream_lines := xs @ ys\<rparr>)\<rparr>) c p sp"
proof -
  have a: "\<And>st. chat_line loads markup_error st l = Continue st"
    using assms by (rule chat_line_unparseable)
  have b: "\<And>s. send_line loads s l = Continue s"
    using assms by (rule send_line_unparseable)
  have "chat cfg loads markup_error
             (env\<lparr>stream_result := Inr (resp\<lparr>stream_lines := xs @ l # ys\<rparr>)\<rparr>) c p
           = chat cfg loads markup_error
             (env\<lparr>stream_result := Inr (resp\<lparr>stream_lines := xs @ ys\<rparr>)\<rparr>) c p"
    by (rule chat_lines_cong) (rule chat_lines_drop_noop [OF a])
  moreover have "send_message cfg loads markup_error
             (env\<lparr>stream_result := Inr (resp\<lparr>stream_lines := xs @ l # ys\<rparr>)\<rparr>) c p sp
           = send_message cfg loads markup_error
             (env\<lparr>stream_result := Inr (resp\<lparr>stream_lines := xs @ ys\<rparr>)\<rparr>) c p sp"
    by (rule send_message_lines_cong) (rule send_lines_drop_noop [OF b])
  ultimately show ?thesis using a b by simp
qed

theorem unparseable_line_is_skipped_witness:
  \<open>startswith ''data: {broken'' ''data:''
   \<and> example_loads (strip (drop 5 ''data: {broken'')) = Inl JSONDecodeError
   \<and> chat_line example_loads example_markup_error example_state ''data: {broken''
       = Continue example_state
   \<and> send_line example_loads (example_client, ''a1'') ''data: {broken''
       = Continue (example_client, ''a1'')
   \<and> chat example_config example_loads example_markup_error
         (example_env [''data: {"choices":[{"delta":{"content":"a1","phase":"answer"}}]}'',
                       ''data: {broken'',
                       ''data: {"choices":[{"delta":{"content":"a2","phase":"answer"}}]}''])
         example_client ''hi''
       = chat example_config example_loads example_markup_error
         (example_env [''data: {"choices":[{"delta":{"content":"a1","phase":"answer"}}]}'',
                       ''data: {"choices":[{"delta":{"content":"a2","phase":"answer"}}]}''])
         example_client ''hi''
   \<and> send_message example_config example_loads example_markup_error
         (example_env [''data: {"choices":[{"delta":{"content":"a1","phase":"answer"}}]}'',
                       ''data: {broken'',
                       ''data: {"choices":[{"delta":{"content":"a2","phase":"answer"}}]}''])
         example_client ''hi'' None
       = send_message example_config example_loads example_markup_error
         (example_env [''data: {"choices":[{"delta":{"content":"a1","phase":"answer"}}]}'',
                       ''data: {"choices":[{"delta":{"content":"a2","phase":"answer"}}]}''])
         example_client ''hi'' None\<close>
proof -
  let ?a1 = \<open>''data: {"choices":[{"delta":{"content":"a1","phase":"answer"}}]}''\<close>
  let ?a2 = \<open>''data: {"choices":[{"delta":{"content":"a2","phase":"answer"}}]}''\<close>
  let ?bad = "''data: {broken''"
  let ?resp = "\<lparr>stream_status = 200, stream_lines = [], stream_breaks = None,
                 error_text = None\<rparr>"
  have h1: "startswith ?bad ''data:''" by (simp add: startswith_def)
  have h2: "example_loads (strip (drop 5 ?bad)) = Inl JSONDecodeError"
    by code_simp
  have e1: "example_env [?a1, ?bad, ?a2]
      = (example_env [])\<lparr>stream_result := Inr (?resp\<lparr>stream_lines := [?a1] @ ?bad # [?a2]\<rparr>)\<rparr>"
    by (simp add: example_env_def example_response_def)
  have e2: "example_env [?a1, ?a2]
      = (example_env [])\<lparr>stream_result := Inr (?resp\<lparr>stream_lines := [?a1] @ [?a2]\<rparr>)\<rparr>"
    by (simp add: example_env_def example_response_def)
  show ?thesis
    unfolding e1 e2
    using h1 h2
      unparseable_line_is_skipped [where l = ?bad and loads = example_loads
        and markup_error = example_markup_error
        and st = example_state and s = "(example_client, ''a1'')" and cfg = example_config
        and env = "example_env []" and resp = ?resp and xs = "[?a1]" and ys = "[?a2]"
        and c = example_client and p = "''hi''" and sp = None, OF h1 h2]
    by blast
qed




text \<open>
  C6. The claim: when the creation of the conversation fails,
  \<^verbatim>\<open>_create_conversation\<close> returns \<^verbatim>\<open>None\<close> and leaves the identifier unset. The
  method means to (lines 84 and 88 return \<^verbatim>\<open>None\<close>, line 86 catches every exception),
  but line 83 puts the first 200 characters of the response body into a line of console
  markup: on the body \<^verbatim>\<open>[/x]\<close> that print raises \<^verbatim>\<open>MarkupError\<close>, the handler of
  line 87 prints the message of that exception, which quotes the tag, and raises it
  again, and the exception leaves \<^verbatim>\<open>_create_conversation\<close>, \<^verbatim>\<open>chat\<close> and
  \<^verbatim>\<open>send_message\<close>. The identifier stays unset. On the body \<^verbatim>\<open>oops\<close> the method
  returns \<^verbatim>\<open>None\<close> as the claim says.
\<close>

theorem creation_failure_escapes:
  \<open>create_conversation example_config example_loads example_markup_error
      (example_refusal 500 ''[/x]'') fresh_client
    = \<lparr>returned = Inl MarkupError, after = fresh_client,
       sent = [create_request example_config (example_refusal 500 ''[/x]'') fresh_client],
       shown = [Print_status (Failed_to_create 500), Print_status (Response_body ''[/x]''),
                Print_status (Error_creating MarkupError)]\<rparr>
   \<and> create_conversation example_config example_loads example_markup_error
      (example_refusal 500 ''oops'') fresh_client
    = \<lparr>returned = Inr JNull, after = fresh_client,
       sent = [create_request example_config (example_refusal 500 ''oops'') fresh_client],
       shown = [Print_status (Failed_to_create 500), Print_status (Response_body ''oops'')]\<rparr>
   \<and> returned (chat example_config example_loads example_markup_error
        ((example_env [])\<lparr>creation := example_refusal 500 ''[/x]''\<rparr>) fresh_client ''hi'')
    = Inl MarkupError
   \<and> returned (send_message example_config example_loads example_markup_error
        ((example_env [])\<lparr>creation := example_refusal 500 ''[/x]''\<rparr>) fresh_client ''hi'' None)
    = Inl MarkupError\<close>
  by code_simp

text \<open>
  C8. The claim: when the persisted credentials cannot be read (a missing or corrupt
  cookie file, a missing token file) they are taken as absent and the construction of
  the client succeeds. Lines 24 and 34 catch \<^verbatim>\<open>FileNotFoundError\<close> alone: on a cookie
  file that is not JSON, \<^verbatim>\<open>json.load\<close> raises \<^verbatim>\<open>JSONDecodeError\<close>, which leaves
  \<^verbatim>\<open>_load_cookies\<close> and the constructor.
\<close>

theorem corrupt_cookie_file_counterexample:
  \<open>corrupt_cookie_file (cookies_file example_config) = Contents ''{broken''
   \<and> example_loads ''{broken'' = Inl JSONDecodeError
   \<and> load_cookies example_config example_loads corrupt_cookie_file = Inl JSONDecodeError
   \<and> init example_config example_loads corrupt_cookie_file = Inl JSONDecodeError\<close>
  by code_simp

text \<open>
  C8, as amended. A missing cookie file gives empty cookies; a missing token file
  gives no token when the cookies hold none; the construction of the client succeeds
  when both files are missing, and when the cookie file holds a JSON object without a
  token and the token file is missing.
\<close>

theorem missing_files_are_absent_credentials:
  "(fs (cookies_file cfg) = Missing \<longrightarrow> load_cookies cfg loads fs = Inr (JObj []))
   \<and> (fs (token_file cfg) = Missing \<and> py_in ''token'' ck = Inr False
        \<longrightarrow> get_token_from_cookies cfg fs ck = Inr JNull)
   \<and> (fs (cookies_file cfg) = Missing \<and> fs (token_file cfg) = Missing
        \<longrightarrow> init cfg loads fs
            = Inr \<lparr>cookies = JObj [], token = JNull, conversation_id = JNull,
                   parent_id = JNull, thinking_enabled = False, thinking_budget = 81920\<rparr>)
   \<and> (fs (cookies_file cfg) = Contents s \<and> loads s = Inr (JObj m) \<and> map_of m ''token'' = None
        \<and> fs (token_file cfg) = Missing
        \<longrightarrow> init cfg loads fs
            = Inr \<lparr>cookies = JObj m, token = JNull, conversation_id = JNull,
                   parent_id = JNull, thinking_enabled = False, thinking_budget = 81920\<rparr>)"
  by (simp add: load_cookies_def get_token_from_cookies_def init_def)

theorem missing_files_are_absent_credentials_witness:
  \<open>no_files (cookies_file example_config) = Missing
   \<and> no_files (token_file example_config) = Missing
   \<and> load_cookies example_config example_loads no_files = Inr (JObj [])
   \<and> py_in ''token'' (JObj [(''session'', JStr ''abc'')]) = Inr False
   \<and> get_token_from_cookies example_config no_files (JObj [(''session'', JStr ''abc'')])
       = Inr JNull
   \<and> init example_config example_loads no_files
       = Inr \<lparr>cookies = JObj [], token = JNull, conversation_id = JNull,
              parent_id = JNull, thinking_enabled = False, thinking_budget = 81920\<rparr>
   \<and> cookie_file_only (cookies_file example_config) = Contents ''{"session":"abc"}''
   \<and> example_loads ''{"session":"abc"}'' = Inr (JObj [(''session'', JStr ''abc'')])
   \<and> cookie_file_only (token_file example_config) = Missing
   \<and> init example_config example_loads cookie_file_only
       = Inr \<lparr>cookies = JObj [(''session'', JStr ''abc'')], token = JNull,
              conversation_id = JNull, parent_id = JNull, thinking_enabled = False,
              thinking_budget = 81920\<rparr>\<close>
proof -
  have a1: "no_files (cookies_file example_config) = Missing"
    and a2: "no_files (token_file example_config) = Missing"
    by (simp_all add: no_files_def)
  have b1: \<open>cookie_file_only (cookies_file example_config) = Contents ''{"session":"abc"}''\<close>
    by code_simp
  have b2: \<open>example_loads ''{"session":"abc"}'' = Inr (JObj [(''session'', JStr ''abc'')])\<close>
    by code_simp
  have b3: "map_of [(''session'', JStr ''abc'')] ''token'' = None" by simp
  have b4: "cookie_file_only (token_file example_config) = Missing"
    by code_simp
  have a3: "py_in ''token'' (JObj [(''session'', JStr ''abc'')]) = Inr False" by simp
  note t1 = missing_files_are_absent_credentials
    [where fs = no_files and cfg = example_config and loads = example_loads
       and ck = "JObj [(''session'', JStr ''abc'')]"]
  note t2 = missing_files_are_absent_credentials
    [where fs = cookie_file_only and cfg = example_config and loads = example_loads
       and s = \<open>''{"session":"abc"}''\<close> and m = "[(''session'', JStr ''abc'')]"]
  show ?thesis
    using a1 a2 a3 b1 b2 b3 b4 t1 t2 by blast
qed


end
